theory Spec2Isabelle
  imports Main "HOL-Library.Sublist"
begin

section \<open>The model-deployment script \<^verbatim>\<open>scripts/deploy-model.sh\<close>\<close>

text \<open>
  The script is a sequential bash pipeline run under \<^verbatim>\<open>set -euo pipefail\<close>. Every
  external command it runs (\<^verbatim>\<open>command -v\<close>, \<^verbatim>\<open>oc\<close>, \<^verbatim>\<open>helm\<close>, \<^verbatim>\<open>curl\<close>,
  a file test) is a collaborator whose answer the script cannot compute; the answers are
  collected in the record \<open>cluster\<close>. The script's own effects are the lines it logs and
  the external commands it invokes; both are recorded, in order, in a list of events.
  A stage takes the events so far and returns its outcome together with the extended list.
  Writing a log line (\<^verbatim>\<open>echo ... | tee -a "$LOG_FILE"\<close>) is taken to succeed; the
  colour codes of the log lines are left out, the severity is kept.
\<close>

subsection \<open>Events, outcomes and configuration\<close>

datatype level = Info | Success | Warning | Error

datatype call =
    CommandV string                     \<comment> \<open>\<^verbatim>\<open>command -v tool\<close>\<close>
  | OcWhoami                            \<comment> \<open>\<^verbatim>\<open>oc whoami\<close>\<close>
  | OcGetNodes                          \<comment> \<open>\<^verbatim>\<open>oc get nodes -l accelerator=h100 --no-headers\<close>\<close>
  | OcDescribeNodes                     \<comment> \<open>\<^verbatim>\<open>oc describe nodes -l accelerator=h100\<close>\<close>
  | OcGetStorageclass                   \<comment> \<open>\<^verbatim>\<open>oc get storageclass --no-headers\<close>\<close>
  | OcGetNamespace string               \<comment> \<open>\<^verbatim>\<open>oc get namespace NS\<close>\<close>
  | OcCreateNamespace string            \<comment> \<open>\<^verbatim>\<open>oc create namespace NS\<close>\<close>
  | OcApply string string               \<comment> \<open>\<^verbatim>\<open>oc apply -f PATH -n NS\<close>\<close>
  | Helm "string list"                  \<comment> \<open>\<^verbatim>\<open>helm ARGS\<close>\<close>
  | OcRolloutStatus string string string
      \<comment> \<open>\<^verbatim>\<open>oc rollout status deployment/NAME -n NS --timeout=T\<close>\<close>
  | OcLogs string string nat            \<comment> \<open>\<^verbatim>\<open>oc logs -l app=NAME -n NS --tail=N\<close>\<close>
  | OcGetService string string          \<comment> \<open>\<^verbatim>\<open>oc get service NAME -n NS\<close>\<close>
  | OcGetEndpoints string string        \<comment> \<open>\<^verbatim>\<open>oc get endpoints NAME -n NS -o json\<close>\<close>
  | OcGetRoute string string            \<comment> \<open>\<^verbatim>\<open>oc get route NAME -n NS\<close>\<close>
  | OcGetRouteHost string string        \<comment> \<open>\<^verbatim>\<open>oc get route NAME -n NS -o jsonpath={.spec.host}\<close>\<close>
  | Curl string                         \<comment> \<open>\<^verbatim>\<open>curl -f -s URL\<close>\<close>

datatype event = Log level string | Call call | Usage

type_synonym state = "event list"

text \<open>
  How the script stops early: an explicit \<^verbatim>\<open>exit 1\<close>; a command outside a condition that
  returns a non-zero status (\<^verbatim>\<open>set -e\<close>, with \<^verbatim>\<open>pipefail\<close> for pipelines), where the
  shell exits with that status; the expansion of an unset variable (\<^verbatim>\<open>set -u\<close>).
  All three leave a non-zero exit code; \<open>Ok\<close> is exit code 0.
\<close>

datatype halt = Exit1 | ErrExit | UnboundVariable

datatype outcome = Ok | Halt halt

definition exit_code_zero :: "outcome \<Rightarrow> bool" where
  "exit_code_zero r = (r = Ok)"

text \<open>
  The output of a pipeline captured with \<^verbatim>\<open>$(...)\<close> and read as \<^verbatim>\<open>${v:-0}\<close>: the
  pipeline failed (one of its commands returned a non-zero status; under \<^verbatim>\<open>pipefail\<close>
  that includes a \<^verbatim>\<open>grep\<close> that selects no line), it printed nothing, or it printed
  a number.
\<close>

datatype query = Failed | NoOutput | Count nat

text \<open>The global shell variables of the script. \<open>timeout\<close> is the raw text of the flag.\<close>

record config =
  model_type :: string
  namespace :: string
  environment :: string
  dry_run :: bool
  verbose :: bool
  timeout :: string
  project_dir :: string
  log_file :: string

definition defaults :: "string \<Rightarrow> string \<Rightarrow> config" where
  "defaults pd lf =
     \<lparr>model_type = ''llama-7b'', namespace = ''ai-models'', environment = ''staging'',
      dry_run = False, verbose = False, timeout = ''600'',
      project_dir = pd, log_file = lf\<rparr>"

text \<open>The answers of the collaborators.\<close>

record cluster =
  installed :: "string \<Rightarrow> bool"
  whoami_ok :: bool
  get_nodes :: "nat option"
    \<comment> \<open>\<^verbatim>\<open>oc get nodes ... | wc -l\<close>; \<open>None\<close> when the pipeline fails\<close>
  describe_nodes :: "string list option"
    \<comment> \<open>the lines printed by \<^verbatim>\<open>oc describe nodes -l accelerator=h100\<close>; \<open>None\<close> when it fails\<close>
  get_storageclass :: "nat option"
    \<comment> \<open>\<^verbatim>\<open>oc get storageclass --no-headers | wc -l\<close>\<close>
  namespace_exists :: "string \<Rightarrow> bool"
  create_namespace_ok :: "string \<Rightarrow> bool"
  apply_ok :: "string \<Rightarrow> string \<Rightarrow> bool"
  file_exists :: "string \<Rightarrow> bool"
  helm_ok :: "string list \<Rightarrow> bool"
  rollout_ok :: "string \<Rightarrow> string \<Rightarrow> string \<Rightarrow> bool"
  logs_ok :: "string \<Rightarrow> string \<Rightarrow> bool"
  service_exists :: "string \<Rightarrow> string \<Rightarrow> bool"
  endpoint_count :: "string \<Rightarrow> string \<Rightarrow> query"
  route_exists :: "string \<Rightarrow> string \<Rightarrow> bool"
  route_host :: "string \<Rightarrow> string \<Rightarrow> string option"
  curl_ok :: "string \<Rightarrow> bool"

subsection \<open>Logging and sequencing\<close>

definition emit :: "event \<Rightarrow> state \<Rightarrow> state" where
  "emit e st = st @ [e]"

definition log_info :: "string \<Rightarrow> state \<Rightarrow> state" where
  "log_info msg = emit (Log Info msg)"

definition log_success :: "string \<Rightarrow> state \<Rightarrow> state" where
  "log_success msg = emit (Log Success msg)"

definition log_warning :: "string \<Rightarrow> state \<Rightarrow> state" where
  "log_warning msg = emit (Log Warning msg)"

definition log_error :: "string \<Rightarrow> state \<Rightarrow> state" where
  "log_error msg = emit (Log Error msg)"

definition invoke :: "call \<Rightarrow> state \<Rightarrow> state" where
  "invoke c = emit (Call c)"

text \<open>One stage after another: the second runs only when the first did not stop the script.\<close>

definition and_then ::
  "(state \<Rightarrow> outcome \<times> state) \<Rightarrow> (state \<Rightarrow> outcome \<times> state) \<Rightarrow> state \<Rightarrow> outcome \<times> state"
where
  "and_then f g st = (case f st of (Ok, st') \<Rightarrow> g st' | (Halt h, st') \<Rightarrow> (Halt h, st'))"

subsection \<open>Text helpers\<close>

text \<open>\<^verbatim>\<open>${array[*]}\<close>: the elements joined by single spaces.\<close>

fun unwords :: "string list \<Rightarrow> string" where
  "unwords [] = []"
| "unwords [w] = w"
| "unwords (w # ws) = w @ '' '' @ unwords ws"

definition digit_char :: "nat \<Rightarrow> char" where
  "digit_char d = ''0123456789'' ! d"

fun show_nat :: "nat \<Rightarrow> string" where
  "show_nat n = (if n < 10 then [digit_char n] else show_nat (n div 10) @ [digit_char (n mod 10)])"

declare show_nat.simps [simp del]

definition show_bool :: "bool \<Rightarrow> string" where
  "show_bool b = (if b then ''true'' else ''false'')"

subsection \<open>Argument parsing (lines 84-118)\<close>

definition usage :: "state \<Rightarrow> outcome \<times> state" where
  "usage st = (Halt Exit1, emit Usage st)"

text \<open>
  A flag that takes a value reads \<^verbatim>\<open>$2\<close>; when it is the last argument \<^verbatim>\<open>$2\<close> is
  unset and \<^verbatim>\<open>set -u\<close> stops the script.
\<close>

fun parse_args :: "string list \<Rightarrow> config \<Rightarrow> (outcome \<times> state) + config" where
  "parse_args [] cfg = Inr cfg"
| "parse_args (a # rest) cfg =
     (if a = ''-m'' \<or> a = ''--model-type'' then
        (case rest of [] \<Rightarrow> Inl (Halt UnboundVariable, [])
         | v # rest' \<Rightarrow> parse_args rest' (cfg\<lparr>model_type := v\<rparr>))
      else if a = ''-n'' \<or> a = ''--namespace'' then
        (case rest of [] \<Rightarrow> Inl (Halt UnboundVariable, [])
         | v # rest' \<Rightarrow> parse_args rest' (cfg\<lparr>namespace := v\<rparr>))
      else if a = ''-e'' \<or> a = ''--environment'' then
        (case rest of [] \<Rightarrow> Inl (Halt UnboundVariable, [])
         | v # rest' \<Rightarrow> parse_args rest' (cfg\<lparr>environment := v\<rparr>))
      else if a = ''-d'' \<or> a = ''--dry-run'' then parse_args rest (cfg\<lparr>dry_run := True\<rparr>)
      else if a = ''-v'' \<or> a = ''--verbose'' then parse_args rest (cfg\<lparr>verbose := True\<rparr>)
      else if a = ''-t'' \<or> a = ''--timeout'' then
        (case rest of [] \<Rightarrow> Inl (Halt UnboundVariable, [])
         | v # rest' \<Rightarrow> parse_args rest' (cfg\<lparr>timeout := v\<rparr>))
      else if a = ''-h'' \<or> a = ''--help'' then Inl (usage [])
      else Inl (usage (log_error (''Unknown option: '' @ a) [])))"

subsection \<open>Prerequisite check (lines 121-149)\<close>

definition required_tools :: "string list" where
  "required_tools = [''oc'', ''kubectl'', ''helm'', ''jq'']"

definition valid_models :: "string list" where
  "valid_models = [''llama-7b'', ''llama-13b'', ''llama-70b'', ''stable-diffusion'', ''code-llama'']"

text \<open>
  \<^verbatim>\<open>[[ " ${valid_models[@]} " =~ " ${MODEL_TYPE} " ]]\<close>: the right-hand side is quoted, so
  the test is whether the model type, with a space on each side, occurs in the space-joined
  list of valid models, itself with a space on each side.
\<close>

definition model_accepted :: "string \<Rightarrow> bool" where
  "model_accepted m = sublist ('' '' @ m @ '' '') ('' '' @ unwords valid_models @ '' '')"

fun check_tools :: "cluster \<Rightarrow> string list \<Rightarrow> state \<Rightarrow> outcome \<times> state" where
  "check_tools env [] st = (Ok, st)"
| "check_tools env (tool # tools) st =
     (let st1 = invoke (CommandV tool) st in
      if \<not> installed env tool
      then (Halt Exit1, log_error (tool @ '' is not installed or not in PATH'') st1)
      else check_tools env tools st1)"

definition check_prerequisites :: "cluster \<Rightarrow> config \<Rightarrow> state \<Rightarrow> outcome \<times> state" where
  "check_prerequisites env cfg st =
     (let st1 = log_info ''Checking prerequisites...'' st in
      case check_tools env required_tools st1 of
        (Halt h, st2) \<Rightarrow> (Halt h, st2)
      | (Ok, st2) \<Rightarrow>
          (let st3 = invoke OcWhoami st2 in
           if \<not> whoami_ok env then
             (Halt Exit1,
              log_info ''Please run: oc login <server-url>''
                (log_error ''Not logged in to OpenShift cluster'' st3))
           else if \<not> model_accepted (model_type cfg) then
             (Halt Exit1,
              log_info (''Valid models: '' @ unwords valid_models)
                (log_error (''Invalid model type: '' @ model_type cfg) st3))
           else (Ok, log_success ''Prerequisites check passed'' st3)))"

subsection \<open>Resource check (lines 152-184)\<close>

text \<open>
  Line 167 pipes the text of \<^verbatim>\<open>oc describe nodes\<close> through
  \<^verbatim>\<open>grep "nvidia.com/gpu" | grep -E "Allocatable|Allocated resources" -A1 |
  grep nvidia.com/gpu | awk '{sum+=$2} END {print sum}'\<close>.

  In the first and third \<^verbatim>\<open>grep\<close> the pattern is a basic regular expression whose only
  special character is the dot, which stands for any character.
\<close>

fun prefix_re :: "string \<Rightarrow> string \<Rightarrow> bool" where
  "prefix_re [] s = True"
| "prefix_re (p # ps) [] = False"
| "prefix_re (p # ps) (c # cs) = ((p = CHR ''.'' \<or> p = c) \<and> prefix_re ps cs)"

fun search_re :: "string \<Rightarrow> string \<Rightarrow> bool" where
  "search_re pat [] = prefix_re pat []"
| "search_re pat (c # cs) = (prefix_re pat (c # cs) \<or> search_re pat cs)"

definition gpu_line :: "string \<Rightarrow> bool" where
  "gpu_line l = search_re ''nvidia.com/gpu'' l"

text \<open>The second \<^verbatim>\<open>grep\<close>: an alternation of two literal texts.\<close>

definition alloc_line :: "string \<Rightarrow> bool" where
  "alloc_line l = (sublist ''Allocatable'' l \<or> sublist ''Allocated resources'' l)"

text \<open>
  \<^verbatim>\<open>grep -A1\<close> prints every selected line and the line after it, with the line
  \<^verbatim>\<open>--\<close> between groups that are not adjacent in the input. The arguments after the
  selection are: whether anything has been printed, whether the previous line was printed,
  and whether the previous line was selected.
\<close>

fun after_context ::
  "(string \<Rightarrow> bool) \<Rightarrow> bool \<Rightarrow> bool \<Rightarrow> bool \<Rightarrow> string list \<Rightarrow> string list"
where
  "after_context sel any prev_printed prev_selected [] = []"
| "after_context sel any prev_printed prev_selected (l # ls) =
     (if sel l \<or> prev_selected
      then (if any \<and> \<not> prev_printed then [''--''] else [])
           @ l # after_context sel True True (sel l) ls
      else after_context sel any False False ls)"

text \<open>
  \<^verbatim>\<open>awk\<close> splits a line into fields at runs of blanks and reads the second field as a
  number: the value of its leading digits, 0 when there are none (signs, fractions and
  exponents, which a resource count does not have, are not modelled). With no input line the
  sum was never assigned and the empty text is printed.
\<close>

definition is_blank :: "char \<Rightarrow> bool" where
  "is_blank c = (c = CHR '' '' \<or> c = CHR 0x09)"

fun split_blank :: "string \<Rightarrow> string \<Rightarrow> string list" where
  "split_blank cur [] = (if cur = [] then [] else [cur])"
| "split_blank cur (c # cs) =
     (if is_blank c then (if cur = [] then split_blank [] cs else cur # split_blank [] cs)
      else split_blank (cur @ [c]) cs)"

definition field2 :: "string \<Rightarrow> string" where
  "field2 l = (case split_blank [] l of f1 # f2 # fs \<Rightarrow> f2 | _ \<Rightarrow> [])"

definition digit_of :: "char \<Rightarrow> nat option" where
  "digit_of =
     map_of [(CHR ''0'', 0), (CHR ''1'', 1), (CHR ''2'', 2), (CHR ''3'', 3), (CHR ''4'', 4),
             (CHR ''5'', 5), (CHR ''6'', 6), (CHR ''7'', 7), (CHR ''8'', 8), (CHR ''9'', 9)]"

fun leading_number :: "nat \<Rightarrow> string \<Rightarrow> nat" where
  "leading_number acc [] = acc"
| "leading_number acc (c # cs) =
     (case digit_of c of None \<Rightarrow> acc | Some d \<Rightarrow> leading_number (10 * acc + d) cs)"

definition awk_sum :: "string list \<Rightarrow> query" where
  "awk_sum ls =
     (if ls = [] then NoOutput
      else Count (sum_list (map (\<lambda>l. leading_number 0 (field2 l)) ls)))"

text \<open>
  The whole pipeline under \<^verbatim>\<open>pipefail\<close>: it fails when \<^verbatim>\<open>oc\<close> fails or when one of
  the three \<^verbatim>\<open>grep\<close>s selects no line (the second selects the lines that match, not
  their context); otherwise its output is what \<^verbatim>\<open>awk\<close> prints.
\<close>

definition available_gpus :: "string list option \<Rightarrow> query" where
  "available_gpus out =
     (case out of
        None \<Rightarrow> Failed
      | Some ls \<Rightarrow>
          (let l1 = filter gpu_line ls;
               l2 = after_context alloc_line False False False l1;
               l3 = filter gpu_line l2
           in if l1 \<noteq> [] \<and> list_ex alloc_line l1 \<and> l3 \<noteq> [] then awk_sum l3 else Failed))"

text \<open>
  The storage check is the tail of \<^verbatim>\<open>check_resources\<close> (lines 175-183); it is a
  definition of its own because the branches of the accelerator check all continue with it.
\<close>

definition check_storage :: "cluster \<Rightarrow> state \<Rightarrow> outcome \<times> state" where
  "check_storage env st =
     (let st1 = invoke OcGetStorageclass st in
      case get_storageclass env of
        None \<Rightarrow> (Halt ErrExit, st1)
      | Some storage_classes \<Rightarrow>
          if storage_classes = 0
          then (Halt Exit1, log_error ''No storage classes available'' st1)
          else (Ok, log_success ''Resource check completed'' st1))"

definition check_resources :: "cluster \<Rightarrow> config \<Rightarrow> state \<Rightarrow> outcome \<times> state" where
  "check_resources env cfg st =
     (let st1 = invoke OcGetNodes (log_info ''Checking cluster resources...'' st) in
      case get_nodes env of
        None \<Rightarrow> (Halt ErrExit, st1)
      | Some gpu_nodes \<Rightarrow>
          if gpu_nodes = 0
          then (Halt Exit1, log_error ''No GPU nodes available in cluster'' st1)
          else
            (let st2 = log_info (''Found '' @ show_nat gpu_nodes @ '' GPU nodes'') st1;
                 st3 = invoke OcDescribeNodes st2
             in case available_gpus (describe_nodes env) of
                  Failed \<Rightarrow> (Halt ErrExit, st3)
                | NoOutput \<Rightarrow>
                    check_storage env (log_warning ''No GPUs currently available'' st3)
                | Count gpus \<Rightarrow>
                    if gpus = 0
                    then check_storage env (log_warning ''No GPUs currently available'' st3)
                    else check_storage env
                           (log_info (''Available GPUs: '' @ show_nat gpus) st3)))"

subsection \<open>Namespace setup (lines 187-209)\<close>

text \<open>
  \<^verbatim>\<open>setup_namespace\<close> has two parts, run one after the other: the namespace itself
  (lines 188-199) and the access-control manifests (lines 201-208).
\<close>

definition rbac_path :: "config \<Rightarrow> string" where
  "rbac_path cfg = project_dir cfg @ ''/deployments/openshift/rbac/''"

definition ensure_namespace :: "cluster \<Rightarrow> config \<Rightarrow> state \<Rightarrow> outcome \<times> state" where
  "ensure_namespace env cfg st =
     (let st1 = invoke (OcGetNamespace (namespace cfg))
                  (log_info (''Setting up namespace: '' @ namespace cfg) st) in
      if namespace_exists env (namespace cfg) then
        (Ok, log_info (''Namespace '' @ namespace cfg @ '' already exists'') st1)
      else if dry_run cfg then
        (Ok, log_info (''[DRY RUN] Would create namespace: '' @ namespace cfg) st1)
      else
        (let st2 = invoke (OcCreateNamespace (namespace cfg)) st1 in
         if create_namespace_ok env (namespace cfg)
         then (Ok, log_success (''Created namespace: '' @ namespace cfg) st2)
         else (Halt ErrExit, st2)))"

definition configure_rbac :: "cluster \<Rightarrow> config \<Rightarrow> state \<Rightarrow> outcome \<times> state" where
  "configure_rbac env cfg st =
     (let st1 = log_info ''Configuring RBAC...'' st in
      if dry_run cfg then
        (Ok, log_info ''[DRY RUN] Would apply RBAC configurations'' st1)
      else
        (let st2 = invoke (OcApply (rbac_path cfg) (namespace cfg)) st1 in
         if apply_ok env (rbac_path cfg) (namespace cfg)
         then (Ok, log_success ''RBAC configured'' st2)
         else (Halt ErrExit, st2)))"

definition setup_namespace :: "cluster \<Rightarrow> config \<Rightarrow> state \<Rightarrow> outcome \<times> state" where
  "setup_namespace env cfg = and_then (ensure_namespace env cfg) (configure_rbac env cfg)"

subsection \<open>Release deployment (lines 212-280)\<close>

definition helm_release :: "config \<Rightarrow> string" where
  "helm_release cfg = model_type cfg @ ''-'' @ environment cfg"

definition chart_dir :: "config \<Rightarrow> string" where
  "chart_dir cfg = project_dir cfg @ ''/deployments/helm/ai-models/''"

definition env_values_file :: "config \<Rightarrow> string" where
  "env_values_file cfg =
     project_dir cfg @ ''/deployments/helm/ai-models/values-'' @ environment cfg @ ''.yaml''"

definition default_values_file :: "config \<Rightarrow> string" where
  "default_values_file cfg = project_dir cfg @ ''/deployments/helm/ai-models/values.yaml''"

definition values_file :: "cluster \<Rightarrow> config \<Rightarrow> string" where
  "values_file env cfg =
     (if \<not> file_exists env (env_values_file cfg) then default_values_file cfg
      else env_values_file cfg)"

definition base_args :: "config \<Rightarrow> string \<Rightarrow> string list" where
  "base_args cfg vf =
     [''upgrade'', ''--install'', helm_release cfg, chart_dir cfg,
      ''--namespace'', namespace cfg,
      ''--values'', vf,
      ''--timeout'', timeout cfg @ ''s'',
      ''--wait'']"

text \<open>
  The accelerator override is written \<^verbatim>\<open>"llama.resources.requests.nvidia\.com/gpu=4"\<close>
  in double quotes, where the backslash before the dot is kept (character 0x5C).
\<close>

definition memory_override :: string where
  "memory_override = ''llama.resources.requests.memory=128Gi''"

definition gpu_override :: string where
  "gpu_override = ''llama.resources.requests.nvidia'' @ [CHR 0x5C] @ ''.com/gpu=4''"

definition variant_override :: string where
  "variant_override = ''llama.model.variant=code''"

text \<open>The \<^verbatim>\<open>case "$MODEL_TYPE"\<close> of lines 234-262; no branch matches any other text.\<close>

definition model_args :: "string \<Rightarrow> string list" where
  "model_args m =
     (if m = ''llama-7b'' then
        [''--set'', ''llama.enabled=true'',
         ''--set'', ''llama.model.size=7b'',
         ''--set'', ''stableDiffusion.enabled=false'']
      else if m = ''llama-13b'' then
        [''--set'', ''llama.enabled=true'',
         ''--set'', ''llama.model.size=13b'',
         ''--set'', ''stableDiffusion.enabled=false'']
      else if m = ''llama-70b'' then
        [''--set'', ''llama.enabled=true'',
         ''--set'', ''llama.model.size=70b'',
         ''--set'', ''stableDiffusion.enabled=false'',
         ''--set'', memory_override,
         ''--set'', gpu_override]
      else if m = ''stable-diffusion'' then
        [''--set'', ''llama.enabled=false'',
         ''--set'', ''stableDiffusion.enabled=true'']
      else if m = ''code-llama'' then
        [''--set'', ''llama.enabled=true'',
         ''--set'', ''llama.model.size=7b'',
         ''--set'', variant_override,
         ''--set'', ''stableDiffusion.enabled=false'']
      else [])"

definition mode_args :: "config \<Rightarrow> string list" where
  "mode_args cfg =
     (if dry_run cfg then [''--dry-run''] else []) @ (if verbose cfg then [''--debug''] else [])"

definition helm_args :: "cluster \<Rightarrow> config \<Rightarrow> string list" where
  "helm_args env cfg =
     base_args cfg (values_file env cfg) @ model_args (model_type cfg) @ mode_args cfg"

definition deploy_model :: "cluster \<Rightarrow> config \<Rightarrow> state \<Rightarrow> outcome \<times> state" where
  "deploy_model env cfg st =
     (let st1 = log_info (''Deploying model: '' @ model_type cfg) st;
          st2 = (if \<not> file_exists env (env_values_file cfg)
                 then log_warning
                        (''Environment-specific values file not found: '' @ env_values_file cfg)
                        st1
                 else st1);
          st3 = (if dry_run cfg
                 then log_info
                        (''helm '' @ unwords (base_args cfg (values_file env cfg)
                                              @ model_args (model_type cfg) @ [''--dry-run'']))
                        (log_info ''[DRY RUN] Helm deployment command:'' st2)
                 else st2);
          st4 = invoke (Helm (helm_args env cfg)) st3
      in if helm_ok env (helm_args env cfg)
         then (Ok, log_success ''Model deployment completed'' st4)
         else (Halt Exit1, log_error ''Model deployment failed'' st4))"

subsection \<open>Rollout monitoring (lines 283-331)\<close>

text \<open>
  The \<^verbatim>\<open>case\<close> of lines 292-302, first match first: the glob \<^verbatim>\<open>"llama-"*\<close> matches every
  text that starts with \<^verbatim>\<open>llama-\<close>. When no branch matches, the variable stays unset.
\<close>

definition deployment_name :: "string \<Rightarrow> string option" where
  "deployment_name m =
     (if prefix ''llama-'' m then Some ''llama-7b-inference''
      else if m = ''stable-diffusion'' then Some ''stable-diffusion-xl''
      else if m = ''code-llama'' then Some ''llama-7b-inference''
      else None)"

definition verify_endpoints :: "cluster \<Rightarrow> config \<Rightarrow> string \<Rightarrow> state \<Rightarrow> outcome \<times> state" where
  "verify_endpoints env cfg service_name st =
     (let st1 = invoke (OcGetService service_name (namespace cfg))
                  (log_info ''Verifying service endpoints...'' st) in
      if service_exists env service_name (namespace cfg) then
        (let st2 = invoke (OcGetEndpoints service_name (namespace cfg)) st1 in
         case endpoint_count env service_name (namespace cfg) of
           Failed \<Rightarrow> (Halt ErrExit, st2)
         | NoOutput \<Rightarrow>
             (Ok, log_warning (''No healthy endpoints found for service '' @ service_name) st2)
         | Count n \<Rightarrow>
             if n > 0 then
               (Ok, log_success
                      (''Service endpoints are healthy ('' @ show_nat n @ '' endpoints)'') st2)
             else
               (Ok, log_warning (''No healthy endpoints found for service '' @ service_name) st2))
      else (Ok, log_warning (''Service '' @ service_name @ '' not found'') st1))"

definition monitor_deployment :: "cluster \<Rightarrow> config \<Rightarrow> state \<Rightarrow> outcome \<times> state" where
  "monitor_deployment env cfg st =
     (if dry_run cfg then (Ok, log_info ''[DRY RUN] Skipping deployment monitoring'' st)
      else
        (let st1 = log_info ''Monitoring deployment progress...'' st in
         case deployment_name (model_type cfg) of
           None \<Rightarrow> (Halt UnboundVariable, st1)
         | Some dn \<Rightarrow>
             (let st2 = invoke (OcRolloutStatus dn (namespace cfg) (timeout cfg @ ''s''))
                          (log_info (''Waiting for deployment '' @ dn @ '' to be ready...'') st1)
              in if rollout_ok env dn (namespace cfg) (timeout cfg @ ''s'') then
                   verify_endpoints env cfg (dn @ ''-service'')
                     (log_success (''Deployment '' @ dn @ '' is ready'') st2)
                 else
                   (let st3 = invoke (OcLogs dn (namespace cfg) 50)
                                (log_info ''Showing pod logs for debugging:''
                                   (log_error
                                      (''Deployment '' @ dn
                                       @ '' failed to become ready within timeout'') st2))
                    in (Halt (if logs_ok env dn (namespace cfg) then Exit1 else ErrExit), st3)))))"

subsection \<open>Health check (lines 334-366)\<close>

definition route_name :: "string \<Rightarrow> string option" where
  "route_name m =
     (if prefix ''llama-'' m \<or> m = ''code-llama'' then Some ''llama-7b-route''
      else if m = ''stable-diffusion'' then Some ''stable-diffusion-route''
      else None)"

definition health_check :: "cluster \<Rightarrow> config \<Rightarrow> state \<Rightarrow> outcome \<times> state" where
  "health_check env cfg st =
     (if dry_run cfg then (Ok, log_info ''[DRY RUN] Skipping health checks'' st)
      else
        (let st1 = log_info ''Running health checks...'' st in
         case route_name (model_type cfg) of
           None \<Rightarrow> (Halt UnboundVariable, st1)
         | Some rn \<Rightarrow>
             (let st2 = invoke (OcGetRoute rn (namespace cfg)) st1 in
              if route_exists env rn (namespace cfg) then
                (let st3 = invoke (OcGetRouteHost rn (namespace cfg)) st2 in
                 case route_host env rn (namespace cfg) of
                   None \<Rightarrow> (Halt ErrExit, st3)
                 | Some host \<Rightarrow>
                     (let url = ''https://'' @ host @ ''/health'';
                          st4 = invoke (Curl url)
                                  (log_info (''Testing health endpoint: '' @ url) st3)
                      in if curl_ok env url
                         then (Ok, log_success ''Health check passed'' st4)
                         else (Halt Exit1, log_error ''Health check failed'' st4)))
              else
                (Ok, log_warning
                       (''Route '' @ rn @ '' not found, skipping external health check'') st2))))"

subsection \<open>Main (lines 369-394)\<close>

text \<open>
  The \<^verbatim>\<open>EXIT\<close> trap. The log file exists whenever the trap runs, since \<^verbatim>\<open>main\<close> has
  logged to it (through \<^verbatim>\<open>tee -a\<close>) before any stage starts.
\<close>

definition cleanup :: "config \<Rightarrow> state \<Rightarrow> state" where
  "cleanup cfg st = log_info (''Deployment log saved to: '' @ log_file cfg) st"

definition stages :: "cluster \<Rightarrow> config \<Rightarrow> state \<Rightarrow> outcome \<times> state" where
  "stages env cfg =
     and_then (check_prerequisites env cfg)
    (and_then (check_resources env cfg)
    (and_then (setup_namespace env cfg)
    (and_then (deploy_model env cfg)
    (and_then (monitor_deployment env cfg)
              (health_check env cfg)))))"

definition banner :: "config \<Rightarrow> state" where
  "banner cfg =
     log_info (''Dry run: '' @ show_bool (dry_run cfg) @ '', Verbose: '' @ show_bool (verbose cfg))
       (log_info (''Model: '' @ model_type cfg @ '', Environment: '' @ environment cfg
                  @ '', Namespace: '' @ namespace cfg)
          (log_info ''Starting AI model deployment'' []))"

definition main :: "cluster \<Rightarrow> config \<Rightarrow> outcome \<times> state" where
  "main env cfg =
     (case stages env cfg (banner cfg) of
        (Ok, st) \<Rightarrow> (Ok, cleanup cfg (log_success ''Deployment completed successfully!'' st))
      | (Halt h, st) \<Rightarrow> (Halt h, cleanup cfg st))"

text \<open>
  The whole script, given the directory it is installed in and the name of its log file: the
  global variables get their default values, the arguments are parsed into them, then
  \<^verbatim>\<open>main\<close> runs.
\<close>

definition deploy_script :: "cluster \<Rightarrow> string \<Rightarrow> string \<Rightarrow> string list \<Rightarrow> outcome \<times> state" where
  "deploy_script env pd lf args =
     (case parse_args args (defaults pd lf) of
        Inl stopped \<Rightarrow> stopped
      | Inr cfg \<Rightarrow> main env cfg)"

subsection \<open>Reading a run\<close>

definition calls :: "state \<Rightarrow> call list" where
  "calls st = concat (map (\<lambda>e. case e of Call c \<Rightarrow> [c] | _ \<Rightarrow> []) st)"

definition logged :: "level \<Rightarrow> state \<Rightarrow> string list" where
  "logged l st = concat (map (\<lambda>e. case e of Log l' msg \<Rightarrow> (if l' = l then [msg] else []) | _ \<Rightarrow> []) st)"

definition polled :: "state \<Rightarrow> string list" where
  "polled st =
     concat (map (\<lambda>e. case e of Call (OcRolloutStatus dn _ _) \<Rightarrow> [dn] | _ \<Rightarrow> []) st)"

text \<open>
  The commands that change the cluster: creating a namespace, applying manifests, and
  \<^verbatim>\<open>helm upgrade --install\<close> unless \<^verbatim>\<open>--dry-run\<close> is among its arguments. Every other
  command of the script reads.
\<close>

fun mutating :: "call \<Rightarrow> bool" where
  "mutating (OcCreateNamespace ns) = True"
| "mutating (OcApply path ns) = True"
| "mutating (Helm args) = (''--dry-run'' \<notin> set args)"
| "mutating c = False"

text \<open>The commands addressed to the cluster: every \<^verbatim>\<open>oc\<close> and \<^verbatim>\<open>helm\<close> command.\<close>

fun cluster_call :: "call \<Rightarrow> bool" where
  "cluster_call (CommandV tool) = False"
| "cluster_call (Curl url) = False"
| "cluster_call c = True"

text \<open>A stage only adds events, and what it adds does not depend on the events before it.\<close>

definition appends :: "(state \<Rightarrow> outcome \<times> state) \<Rightarrow> bool" where
  "appends f = (\<forall>st. f st = (fst (f []), st @ snd (f [])))"

text \<open>The first four and the first five stages of \<^verbatim>\<open>main\<close>.\<close>

definition upto_deploy :: "cluster \<Rightarrow> config \<Rightarrow> state \<Rightarrow> outcome \<times> state" where
  "upto_deploy env cfg =
     and_then (check_prerequisites env cfg)
    (and_then (check_resources env cfg)
    (and_then (setup_namespace env cfg)
              (deploy_model env cfg)))"

definition upto_monitor :: "cluster \<Rightarrow> config \<Rightarrow> state \<Rightarrow> outcome \<times> state" where
  "upto_monitor env cfg = and_then (upto_deploy env cfg) (monitor_deployment env cfg)"

subsection \<open>A concrete cluster and request\<close>

text \<open>
  The accelerator section of \<^verbatim>\<open>oc describe nodes\<close> as it is laid out: every section
  header and every resource is a line of its own. Here the node has no allocatable unit.
\<close>

definition describe_zero_units :: "string list" where
  "describe_zero_units =
     [''Name:               gpu-node-1'',
      ''Labels:             accelerator=h100'',
      ''Capacity:'',
      ''  cpu:                96'',
      ''  nvidia.com/gpu:     8'',
      ''Allocatable:'',
      ''  cpu:                95'',
      ''  nvidia.com/gpu:     0'',
      ''Allocated resources:'',
      ''  Resource           Requests  Limits'',
      ''  --------           --------  ------'',
      ''  cpu                500m      1'',
      ''  nvidia.com/gpu     0         0'']"

text \<open>
  A text the pipeline of line 167 can read: the header line names the resource too, so it
  passes the first two \<^verbatim>\<open>grep\<close>s, and the resource line follows it as context.
\<close>

definition describe_joined :: "string list" where
  "describe_joined =
     [''Allocatable (nvidia.com/gpu):'',
      ''  nvidia.com/gpu:     2'']"

text \<open>
  A cluster on which a deployment goes through: three accelerator nodes, a describe text
  from which the script reads two units, one storage class, no namespace and no
  environment-specific values file yet.
\<close>

definition ready_cluster :: cluster where
  "ready_cluster =
     \<lparr>installed = (\<lambda>tool. True), whoami_ok = True,
      get_nodes = Some 3, describe_nodes = Some describe_joined, get_storageclass = Some 1,
      namespace_exists = (\<lambda>ns. False), create_namespace_ok = (\<lambda>ns. True),
      apply_ok = (\<lambda>path ns. True), file_exists = (\<lambda>path. False),
      helm_ok = (\<lambda>args. True), rollout_ok = (\<lambda>dn ns t. True), logs_ok = (\<lambda>dn ns. True),
      service_exists = (\<lambda>svc ns. True), endpoint_count = (\<lambda>svc ns. Count 2),
      route_exists = (\<lambda>rn ns. True), route_host = (\<lambda>rn ns. Some ''models.example.com''),
      curl_ok = (\<lambda>url. True)\<rparr>"

definition request :: config where
  "request = defaults ''/opt/mlops'' ''/tmp/model-deployment.log''"

section \<open>Properties\<close>

subsection \<open>Reading events\<close>

lemmas emits = emit_def log_info_def log_success_def log_warning_def log_error_def invoke_def

lemmas pipeline_defs =
  available_gpus_def gpu_line_def alloc_line_def awk_sum_def field2_def is_blank_def
  digit_of_def sublist_Cons_right Let_def

lemma available_gpus_joined [simp]: "available_gpus (Some describe_joined) = Count 2"
  by (simp add: describe_joined_def pipeline_defs)

lemma available_gpus_zero_units [simp]: "available_gpus (Some describe_zero_units) = Failed"
  by (simp add: describe_zero_units_def pipeline_defs)

text \<open>
  When no line passes both the first and the second \<^verbatim>\<open>grep\<close>, the pipeline fails; and
  a pipeline that does not fail has printed a number.
\<close>

lemma available_gpus_separate_lines:
  "\<forall>l\<in>set ls. gpu_line l \<longrightarrow> \<not> alloc_line l \<Longrightarrow> available_gpus (Some ls) = Failed"
  by (auto simp: available_gpus_def Let_def list_ex_iff)

lemma available_gpus_not_empty: "available_gpus out \<noteq> NoOutput"
  by (auto simp: available_gpus_def Let_def awk_sum_def split: option.splits)

lemma calls_simps [simp]:
  "calls [] = []"
  "calls (st @ st') = calls st @ calls st'"
  "calls (Call c # st) = c # calls st"
  "calls (Log l msg # st) = calls st"
  "calls (Usage # st) = calls st"
  by (simp_all add: calls_def)

lemma logged_simps [simp]:
  "logged l [] = []"
  "logged l (st @ st') = logged l st @ logged l st'"
  "logged l (Call c # st) = logged l st"
  "logged l (Log l' msg # st) = (if l' = l then [msg] else []) @ logged l st"
  "logged l (Usage # st) = logged l st"
  by (simp_all add: logged_def)

lemma polled_simps [simp]:
  "polled [] = []"
  "polled (st @ st') = polled st @ polled st'"
  "polled (Log l msg # st) = polled st"
  "polled (Usage # st) = polled st"
  "polled (Call c # st) = (case c of OcRolloutStatus dn _ _ \<Rightarrow> [dn] | _ \<Rightarrow> []) @ polled st"
  by (simp_all add: polled_def)

subsection \<open>Every stage appends\<close>

lemma check_tools_append:
  "check_tools env tools st = (fst (check_tools env tools []), st @ snd (check_tools env tools []))"
proof (induction tools arbitrary: st)
  case Nil
  show ?case by simp
next
  case (Cons tool tools)
  have a: "check_tools env tools (st @ [Call (CommandV tool)])
         = (fst (check_tools env tools []),
            (st @ [Call (CommandV tool)]) @ snd (check_tools env tools []))"
    by (rule Cons.IH)
  have b: "check_tools env tools [Call (CommandV tool)]
         = (fst (check_tools env tools []),
            [Call (CommandV tool)] @ snd (check_tools env tools []))"
    by (rule Cons.IH)
  show ?case
    by (simp add: emits Let_def a b)
qed

lemma check_prerequisites_append:
  "check_prerequisites env cfg st =
     (fst (check_prerequisites env cfg []), st @ snd (check_prerequisites env cfg []))"
proof -
  have a: "check_tools env required_tools (st @ [Log Info ''Checking prerequisites...''])
         = (fst (check_tools env required_tools []),
            (st @ [Log Info ''Checking prerequisites...''])
            @ snd (check_tools env required_tools []))"
    by (rule check_tools_append)
  have b: "check_tools env required_tools [Log Info ''Checking prerequisites...'']
         = (fst (check_tools env required_tools []),
            [Log Info ''Checking prerequisites...''] @ snd (check_tools env required_tools []))"
    by (rule check_tools_append)
  show ?thesis
    by (cases "fst (check_tools env required_tools [])")
       (simp_all add: check_prerequisites_def emits Let_def a b)
qed

lemma check_resources_append:
  "check_resources env cfg st =
     (fst (check_resources env cfg []), st @ snd (check_resources env cfg []))"
  by (simp add: check_resources_def check_storage_def emits Let_def
           split: option.splits query.splits)

lemma ensure_namespace_append:
  "ensure_namespace env cfg st =
     (fst (ensure_namespace env cfg []), st @ snd (ensure_namespace env cfg []))"
  by (simp add: ensure_namespace_def emits Let_def)

lemma configure_rbac_append:
  "configure_rbac env cfg st =
     (fst (configure_rbac env cfg []), st @ snd (configure_rbac env cfg []))"
  by (simp add: configure_rbac_def emits Let_def)

lemma deploy_model_append:
  "deploy_model env cfg st = (fst (deploy_model env cfg []), st @ snd (deploy_model env cfg []))"
  by (simp add: deploy_model_def emits Let_def)

lemma monitor_deployment_append:
  "monitor_deployment env cfg st =
     (fst (monitor_deployment env cfg []), st @ snd (monitor_deployment env cfg []))"
  by (simp add: monitor_deployment_def verify_endpoints_def emits Let_def
           split: option.splits query.splits)

lemma health_check_append:
  "health_check env cfg st = (fst (health_check env cfg []), st @ snd (health_check env cfg []))"
  by (simp add: health_check_def emits Let_def split: option.splits)

lemma appends_and_then: "appends f \<Longrightarrow> appends g \<Longrightarrow> appends (and_then f g)"
proof -
  assume f: "appends f" and g: "appends g"
  obtain r es where fe: "f [] = (r, es)" by (cases "f []")
  obtain r' es' where ge: "g [] = (r', es')" by (cases "g []")
  have fs: "f st = (r, st @ es)" for st
    using f fe by (simp add: appends_def)
  have gs: "g st = (r', st @ es')" for st
    using g ge by (simp add: appends_def)
  show ?thesis
    by (cases r) (simp_all add: appends_def and_then_def fs gs)
qed

lemma appends_stage:
  "appends (check_prerequisites env cfg)"
  "appends (check_resources env cfg)"
  "appends (setup_namespace env cfg)"
  "appends (deploy_model env cfg)"
  "appends (monitor_deployment env cfg)"
  "appends (health_check env cfg)"
proof -
  show "appends (check_prerequisites env cfg)"
    unfolding appends_def using check_prerequisites_append by blast
  show "appends (check_resources env cfg)"
    unfolding appends_def using check_resources_append by blast
  have "appends (ensure_namespace env cfg)"
    unfolding appends_def using ensure_namespace_append by blast
  moreover have "appends (configure_rbac env cfg)"
    unfolding appends_def using configure_rbac_append by blast
  ultimately show "appends (setup_namespace env cfg)"
    unfolding setup_namespace_def by (rule appends_and_then)
  show "appends (deploy_model env cfg)"
    unfolding appends_def using deploy_model_append by blast
  show "appends (monitor_deployment env cfg)"
    unfolding appends_def using monitor_deployment_append by blast
  show "appends (health_check env cfg)"
    unfolding appends_def using health_check_append by blast
qed

lemma and_then_assoc: "and_then (and_then f g) h = and_then f (and_then g h)"
  by (rule ext) (simp add: and_then_def split: prod.splits outcome.splits)

lemma stages_upto_deploy:
  "stages env cfg =
     and_then (upto_deploy env cfg) (and_then (monitor_deployment env cfg) (health_check env cfg))"
  by (simp add: stages_def upto_deploy_def and_then_assoc)

lemma stages_upto_monitor:
  "stages env cfg = and_then (upto_monitor env cfg) (health_check env cfg)"
  by (simp add: stages_upto_deploy upto_monitor_def and_then_assoc)

subsection \<open>Running the pipeline\<close>

lemma and_then_Ok:
  "fst (and_then f g st) = Ok \<longleftrightarrow> (\<exists>st'. f st = (Ok, st') \<and> fst (g st') = Ok)"
  by (cases "f st") (auto simp: and_then_def split: outcome.splits)

lemma and_then_eq_Ok: "f st = (Ok, st') \<Longrightarrow> and_then f g st = g st'"
  by (simp add: and_then_def)

lemma and_then_eq_Halt: "f st = (Halt h, st') \<Longrightarrow> and_then f g st = (Halt h, st')"
  by (simp add: and_then_def)

lemma main_Ok: "fst (main env cfg) = Ok \<longleftrightarrow> fst (stages env cfg (banner cfg)) = Ok"
  by (cases "stages env cfg (banner cfg)") (auto simp: main_def split: outcome.splits)

lemma main_eq_Halt:
  "stages env cfg (banner cfg) = (Halt h, st) \<Longrightarrow> main env cfg = (Halt h, cleanup cfg st)"
  by (simp add: main_def)

lemma calls_banner [simp]: "calls (banner cfg) = []"
  by (simp add: banner_def emits)

lemma calls_main: "calls (snd (main env cfg)) = calls (snd (stages env cfg (banner cfg)))"
  by (cases "stages env cfg (banner cfg)")
     (auto simp: main_def cleanup_def emits split: outcome.splits)

lemma appends_snd: "appends f \<Longrightarrow> snd (f st) = st @ snd (f [])"
  by (metis appends_def snd_conv)

lemma calls_and_then:
  assumes "appends f" and "appends g"
  shows "calls (snd (and_then f g st)) =
           calls st @ calls (snd (f []))
           @ (if fst (f []) = Ok then calls (snd (g [])) else [])"
proof (cases "fst (f [])")
  case Ok
  then have "f st = (Ok, st @ snd (f []))"
    using assms(1) by (metis appends_def)
  then have "and_then f g st = g (st @ snd (f []))"
    by (rule and_then_eq_Ok)
  then show ?thesis
    using Ok appends_snd [OF assms(2), of "st @ snd (f [])"] by simp
next
  case (Halt h)
  then have "f st = (Halt h, st @ snd (f []))"
    using assms(1) by (metis appends_def)
  then have "and_then f g st = (Halt h, st @ snd (f []))"
    by (rule and_then_eq_Halt)
  then show ?thesis
    using Halt by simp
qed

lemma calls_check_tools: "\<not> mutating c" if "c \<in> set (calls (snd (check_tools env tools st)))"
  and "\<forall>c\<in>set (calls st). \<not> mutating c"
  using that
  by (induction tools arbitrary: st) (auto simp: emits Let_def split: if_splits)

lemma quiet_check_prerequisites:
  "\<forall>c\<in>set (calls (snd (check_prerequisites env cfg []))). \<not> mutating c"
proof -
  have "\<forall>c\<in>set (calls (snd (check_tools env required_tools [Log Info ''Checking prerequisites...'']))). \<not> mutating c"
    using calls_check_tools [of _ env required_tools "[Log Info ''Checking prerequisites...'']"]
    by simp
  then show ?thesis
    by (cases "check_tools env required_tools [Log Info ''Checking prerequisites...'']")
       (auto simp: check_prerequisites_def emits Let_def split: outcome.splits if_splits)
qed

lemma quiet_check_resources:
  "\<forall>c\<in>set (calls (snd (check_resources env cfg []))). \<not> mutating c"
  by (auto simp: check_resources_def check_storage_def emits Let_def
           split: option.splits query.splits if_splits)

lemma dry_setup_namespace:
  "dry_run cfg \<Longrightarrow> calls (snd (setup_namespace env cfg [])) = [OcGetNamespace (namespace cfg)]"
  by (simp add: setup_namespace_def and_then_def ensure_namespace_def configure_rbac_def
        emits Let_def)

lemma dry_deploy_model:
  "dry_run cfg \<Longrightarrow> calls (snd (deploy_model env cfg [])) =
     [Helm (base_args cfg (values_file env cfg) @ model_args (model_type cfg)
            @ ''--dry-run'' # (if verbose cfg then [''--debug''] else []))]"
  by (simp add: deploy_model_def helm_args_def mode_args_def emits Let_def)

lemma dry_monitor_deployment:
  "dry_run cfg \<Longrightarrow> monitor_deployment env cfg st =
     (Ok, st @ [Log Info ''[DRY RUN] Skipping deployment monitoring''])"
  by (simp add: monitor_deployment_def emits)

lemma dry_health_check:
  "dry_run cfg \<Longrightarrow> health_check env cfg st =
     (Ok, st @ [Log Info ''[DRY RUN] Skipping health checks''])"
  by (simp add: health_check_def emits)

lemma calls_stages:
  "calls (snd (stages env cfg st)) =
     calls st @ calls (snd (check_prerequisites env cfg [])) @
     (if fst (check_prerequisites env cfg []) = Ok then
        calls (snd (check_resources env cfg [])) @
        (if fst (check_resources env cfg []) = Ok then
           calls (snd (setup_namespace env cfg [])) @
           (if fst (setup_namespace env cfg []) = Ok then
              calls (snd (deploy_model env cfg [])) @
              (if fst (deploy_model env cfg []) = Ok then
                 calls (snd (monitor_deployment env cfg [])) @
                 (if fst (monitor_deployment env cfg []) = Ok then
                    calls (snd (health_check env cfg []))
                  else [])
               else [])
            else [])
         else [])
      else [])"
proof -
  note a = appends_stage [of env cfg]
  have 5: "appends (and_then (monitor_deployment env cfg) (health_check env cfg))"
    by (intro appends_and_then a)
  have 4: "appends (and_then (deploy_model env cfg)
             (and_then (monitor_deployment env cfg) (health_check env cfg)))"
    by (intro appends_and_then a)
  have 3: "appends (and_then (setup_namespace env cfg) (and_then (deploy_model env cfg)
             (and_then (monitor_deployment env cfg) (health_check env cfg))))"
    by (intro appends_and_then a)
  have 2: "appends (and_then (check_resources env cfg) (and_then (setup_namespace env cfg)
             (and_then (deploy_model env cfg)
             (and_then (monitor_deployment env cfg) (health_check env cfg)))))"
    by (intro appends_and_then a)
  show ?thesis
    unfolding stages_def
    by (simp only: calls_and_then [OF a(1) 2] calls_and_then [OF a(2) 3]
          calls_and_then [OF a(3) 4] calls_and_then [OF a(4) 5]
          calls_and_then [OF a(5) a(6)] calls_simps append_Nil)
qed

lemma not_Ok_and_then:
  "(\<And>st'. fst (g st') \<noteq> Ok) \<Longrightarrow> fst (and_then f g st) \<noteq> Ok"
  by (simp add: and_then_Ok)

lemma not_Ok_and_then_left:
  "(\<And>st'. fst (f st') \<noteq> Ok) \<Longrightarrow> fst (and_then f g st) \<noteq> Ok"
  by (metis and_then_Ok fst_conv)

lemmas run_defs =
  stages_def upto_deploy_def upto_monitor_def and_then_def check_prerequisites_def
  required_tools_def model_accepted_def valid_models_def check_resources_def check_storage_def
  setup_namespace_def ensure_namespace_def configure_rbac_def deploy_model_def
  monitor_deployment_def verify_endpoints_def deployment_name_def health_check_def
  route_name_def request_def defaults_def ready_cluster_def emits Let_def

subsection \<open>The model-type test and the tool loop\<close>

lemma prefix_word:
  "c \<notin> set m \<Longrightarrow> c \<notin> set w \<Longrightarrow> prefix (m @ [c]) (w @ c # r) \<longleftrightarrow> m = w"
proof (induction m arbitrary: w)
  case Nil
  then show ?case by (cases w) auto
next
  case (Cons a m)
  then show ?case by (cases w) auto
qed

lemma sublist_skip_word:
  "c \<notin> set w \<Longrightarrow> sublist (c # x) (w @ ys) \<longleftrightarrow> sublist (c # x) ys"
  by (induction w) (auto simp: sublist_Cons_right)

lemma sublist_spaced:
  assumes "\<forall>w\<in>set ws. c \<notin> set w" and "c \<notin> set m"
  shows "sublist (c # m @ [c]) (c # concat (map (\<lambda>w. w @ [c]) ws)) \<longleftrightarrow> m \<in> set ws"
  using assms(1)
proof (induction ws)
  case Nil
  show ?case by (simp add: sublist_Cons_right)
next
  case (Cons w ws)
  let ?rest = "concat (map (\<lambda>w. w @ [c]) ws)"
  have w: "c \<notin> set w" using Cons.prems by simp
  have "sublist (c # m @ [c]) (c # concat (map (\<lambda>w. w @ [c]) (w # ws)))
        \<longleftrightarrow> sublist (c # m @ [c]) (c # w @ c # ?rest)"
    by simp
  also have "\<dots> \<longleftrightarrow> prefix (m @ [c]) (w @ c # ?rest) \<or> sublist (c # m @ [c]) (w @ c # ?rest)"
    by (simp add: sublist_Cons_right)
  also have "\<dots> \<longleftrightarrow> m = w \<or> sublist (c # m @ [c]) (c # ?rest)"
    using prefix_word [OF assms(2) w] sublist_skip_word [OF w] by simp
  also have "\<dots> \<longleftrightarrow> m = w \<or> m \<in> set ws"
    using Cons by simp
  finally show ?case by auto
qed

lemma model_accepted_iff:
  assumes "CHR '' '' \<notin> set m"
  shows "model_accepted m \<longleftrightarrow> m \<in> set valid_models"
proof -
  have "'' '' @ unwords valid_models @ '' ''
        = CHR '' '' # concat (map (\<lambda>w. w @ [CHR '' '']) valid_models)"
    by (simp add: valid_models_def)
  moreover have "\<forall>w\<in>set valid_models. CHR '' '' \<notin> set w"
    by (simp add: valid_models_def)
  ultimately show ?thesis
    using sublist_spaced [of valid_models "CHR '' ''" m] assms
    by (simp add: model_accepted_def)
qed

text \<open>
  The test is a substring test, not a membership test: two valid names separated by a space
  pass it, although the text is not one of the five model types.
\<close>

lemma model_accepted_two_names: "model_accepted ''llama-7b llama-13b''"
  by (simp add: model_accepted_def valid_models_def sublist_Cons_right)

lemma check_tools_required_Halt:
  "fst (check_tools env required_tools st) = Ok \<or> fst (check_tools env required_tools st) = Halt Exit1"
  by (simp add: required_tools_def emits Let_def)

lemma check_tools_required_calls:
  "prefix (calls (snd (check_tools env required_tools st)))
     (calls st @ [CommandV ''oc'', CommandV ''kubectl'', CommandV ''helm'', CommandV ''jq''])"
  by (simp add: required_tools_def emits Let_def)

lemma check_tools_required_Ok:
  "fst (check_tools env required_tools st) = Ok \<Longrightarrow>
   calls (snd (check_tools env required_tools st)) =
     calls st @ [CommandV ''oc'', CommandV ''kubectl'', CommandV ''helm'', CommandV ''jq'']"
  by (simp add: required_tools_def emits Let_def split: if_splits)

lemma check_tools_first_missing:
  assumes "\<forall>t\<in>set pre. installed env t" and "\<not> installed env tool"
  shows "check_tools env (pre @ tool # post) st =
     (Halt Exit1,
      st @ map (\<lambda>t. Call (CommandV t)) pre
         @ [Call (CommandV tool), Log Error (tool @ '' is not installed or not in PATH'')])"
  using assms
  by (induction pre arbitrary: st) (simp_all add: emits Let_def)

subsection \<open>Which rollouts a run polls\<close>

lemma polled_calls: "polled (map Call (calls st)) = polled st"
proof (induction st)
  case Nil
  show ?case by simp
next
  case (Cons e st)
  then show ?case by (cases e) simp_all
qed

lemma polled_check_tools:
  "polled (snd (check_tools env tools st)) = polled st"
  by (induction tools arbitrary: st) (simp_all add: emits Let_def)

lemma polled_check_prerequisites: "polled (snd (check_prerequisites env cfg [])) = []"
proof -
  have "polled (snd (check_tools env required_tools [Log Info ''Checking prerequisites...''])) = []"
    by (simp add: polled_check_tools)
  then show ?thesis
    by (cases "check_tools env required_tools [Log Info ''Checking prerequisites...'']")
       (auto simp: check_prerequisites_def emits Let_def split: outcome.splits)
qed

lemma polled_check_resources: "polled (snd (check_resources env cfg [])) = []"
  by (simp add: check_resources_def check_storage_def emits Let_def
        split: option.splits query.splits)

lemma polled_setup_namespace: "polled (snd (setup_namespace env cfg [])) = []"
  by (simp add: setup_namespace_def and_then_def ensure_namespace_def configure_rbac_def
        emits Let_def)

lemma polled_deploy_model: "polled (snd (deploy_model env cfg [])) = []"
  by (simp add: deploy_model_def emits Let_def)

lemma polled_health_check: "polled (snd (health_check env cfg [])) = []"
  by (simp add: health_check_def emits Let_def split: option.splits)

lemma polled_main:
  "polled (snd (main env cfg)) = [] \<or>
   polled (snd (main env cfg)) = polled (snd (monitor_deployment env cfg []))"
proof -
  have split: "polled (map Call (xs @ ys)) = polled (map Call xs) @ polled (map Call ys)"
    for xs ys
    by simp
  have "polled (snd (main env cfg)) = polled (map Call (calls (snd (stages env cfg (banner cfg)))))"
    by (simp only: polled_calls calls_main [symmetric])
  also have "\<dots> = [] \<or> \<dots> = polled (snd (monitor_deployment env cfg []))"
    by (simp only: calls_stages calls_banner append_Nil split polled_calls
          polled_check_prerequisites polled_check_resources polled_setup_namespace
          polled_deploy_model polled_health_check if_distrib [of "\<lambda>xs. polled (map Call xs)"]
          if_distrib [of "\<lambda>xs. _ @ xs"] list.map polled_simps append_Nil2 if_cancel
          split: if_splits)
       simp
  finally show ?thesis .
qed

subsection \<open>A failed accelerator query\<close>

text \<open>
  When the pipeline that sums the accelerators fails, the assignment fails and
  \<^verbatim>\<open>set -e\<close> stops the script at once: nothing is logged and the storage classes are
  not looked at.
\<close>

lemma check_resources_query_failed:
  "get_nodes env = Some n \<Longrightarrow> 0 < n \<Longrightarrow> available_gpus (describe_nodes env) = Failed \<Longrightarrow>
   check_resources env cfg st =
     (Halt ErrExit,
      st @ [Log Info ''Checking cluster resources...'', Call OcGetNodes,
            Log Info (''Found '' @ show_nat n @ '' GPU nodes''), Call OcDescribeNodes])"
  by (simp add: check_resources_def emits Let_def)

subsection \<open>The verdicts of the resource check\<close>

text \<open>
  Zero accelerator nodes and zero storage classes stop the run with an error and exit code 1.
  A failed accelerator query stops it with nothing logged. When the query prints 0, the check
  logs the warning and goes on to the storage classes.
\<close>

lemma resource_audit_legs:
  "(get_nodes env = Some 0 \<longrightarrow>
      check_resources env cfg st =
        (Halt Exit1, st @ [Log Info ''Checking cluster resources...'', Call OcGetNodes,
                           Log Error ''No GPU nodes available in cluster'']) \<and>
      \<not> exit_code_zero (fst (main env cfg)) \<and>
      (check_prerequisites env cfg (banner cfg) = (Ok, st1) \<longrightarrow>
         main env cfg =
           (Halt Exit1, st1 @ [Log Info ''Checking cluster resources...'', Call OcGetNodes,
                               Log Error ''No GPU nodes available in cluster'',
                               Log Info (''Deployment log saved to: '' @ log_file cfg)]))) \<and>
   (get_storageclass env = Some 0 \<longrightarrow>
      check_storage env st =
        (Halt Exit1, st @ [Call OcGetStorageclass, Log Error ''No storage classes available'']) \<and>
      fst (check_resources env cfg st) \<noteq> Ok \<and>
      \<not> exit_code_zero (fst (main env cfg))) \<and>
   (get_nodes env = Some n \<and> 0 < n \<and> available_gpus (describe_nodes env) = Failed \<longrightarrow>
      check_resources env cfg st =
        (Halt ErrExit,
         st @ [Log Info ''Checking cluster resources...'', Call OcGetNodes,
               Log Info (''Found '' @ show_nat n @ '' GPU nodes''), Call OcDescribeNodes]) \<and>
      \<not> exit_code_zero (fst (main env cfg)) \<and>
      (check_prerequisites env cfg (banner cfg) = (Ok, st1) \<longrightarrow>
         main env cfg =
           (Halt ErrExit,
            st1 @ [Log Info ''Checking cluster resources...'', Call OcGetNodes,
                   Log Info (''Found '' @ show_nat n @ '' GPU nodes''), Call OcDescribeNodes,
                   Log Info (''Deployment log saved to: '' @ log_file cfg)]))) \<and>
   (get_nodes env = Some n \<and> 0 < n \<and> available_gpus (describe_nodes env) = Count 0 \<longrightarrow>
      check_resources env cfg st =
        check_storage env
          (st @ [Log Info ''Checking cluster resources...'', Call OcGetNodes,
                 Log Info (''Found '' @ show_nat n @ '' GPU nodes''), Call OcDescribeNodes,
                 Log Warning ''No GPUs currently available'']) \<and>
      (get_storageclass env = Some k \<and> 0 < k \<longrightarrow>
         check_resources env cfg st =
           (Ok, st @ [Log Info ''Checking cluster resources...'', Call OcGetNodes,
                      Log Info (''Found '' @ show_nat n @ '' GPU nodes''), Call OcDescribeNodes,
                      Log Warning ''No GPUs currently available'',
                      Call OcGetStorageclass, Log Success ''Resource check completed'']) \<and>
         (check_prerequisites env cfg (banner cfg) = (Ok, st1) \<longrightarrow>
            stages env cfg (banner cfg) =
              and_then (setup_namespace env cfg)
             (and_then (deploy_model env cfg)
             (and_then (monitor_deployment env cfg) (health_check env cfg)))
                (st1 @ [Log Info ''Checking cluster resources...'', Call OcGetNodes,
                        Log Info (''Found '' @ show_nat n @ '' GPU nodes''), Call OcDescribeNodes,
                        Log Warning ''No GPUs currently available'',
                        Call OcGetStorageclass, Log Success ''Resource check completed'']))))"
proof -
  let ?rest = "and_then (setup_namespace env cfg)
             (and_then (deploy_model env cfg)
             (and_then (monitor_deployment env cfg) (health_check env cfg)))"
  have stages_eq: "stages env cfg = and_then (check_prerequisites env cfg)
                     (and_then (check_resources env cfg) ?rest)"
    by (simp add: stages_def)
  have fatal: "\<not> exit_code_zero (fst (main env cfg))"
    if "\<And>st'. fst (check_resources env cfg st') \<noteq> Ok"
  proof -
    have "fst (and_then (check_resources env cfg) ?rest st') \<noteq> Ok" for st'
      using that by (rule not_Ok_and_then_left)
    then have "fst (stages env cfg (banner cfg)) \<noteq> Ok"
      unfolding stages_eq by (rule not_Ok_and_then)
    then show ?thesis
      by (simp add: exit_code_zero_def main_Ok)
  qed
  have nodes: "check_resources env cfg st' =
        (Halt Exit1, st' @ [Log Info ''Checking cluster resources...'', Call OcGetNodes,
                           Log Error ''No GPU nodes available in cluster''])"
    if "get_nodes env = Some 0" for st'
    using that by (simp add: check_resources_def emits Let_def)
  have nodes_fatal: "\<not> exit_code_zero (fst (main env cfg))" if "get_nodes env = Some 0"
    by (rule fatal) (simp add: nodes [OF that])
  have nodes_run: "main env cfg =
           (Halt Exit1, st1 @ [Log Info ''Checking cluster resources...'', Call OcGetNodes,
                               Log Error ''No GPU nodes available in cluster'',
                               Log Info (''Deployment log saved to: '' @ log_file cfg)])"
    if "get_nodes env = Some 0" and "check_prerequisites env cfg (banner cfg) = (Ok, st1)"
  proof -
    have "stages env cfg (banner cfg) = and_then (check_resources env cfg) ?rest st1"
      unfolding stages_eq using that(2) by (rule and_then_eq_Ok)
    also have "\<dots> = (Halt Exit1, st1 @ [Log Info ''Checking cluster resources...'',
                         Call OcGetNodes, Log Error ''No GPU nodes available in cluster''])"
      using nodes [OF that(1), of st1] by (rule and_then_eq_Halt)
    finally show ?thesis
      by (simp add: main_def cleanup_def emits)
  qed
  have storage: "check_storage env st' =
        (Halt Exit1, st' @ [Call OcGetStorageclass, Log Error ''No storage classes available''])"
    if "get_storageclass env = Some 0" for st'
    using that by (simp add: check_storage_def emits Let_def)
  have storage_res: "fst (check_resources env cfg st') \<noteq> Ok"
    if "get_storageclass env = Some 0" for st'
    by (simp add: check_resources_def storage [OF that] emits Let_def
          split: option.splits query.splits)
  have storage_fatal: "\<not> exit_code_zero (fst (main env cfg))" if "get_storageclass env = Some 0"
    by (rule fatal) (rule storage_res [OF that])
  have failed: "check_resources env cfg st' =
        (Halt ErrExit,
         st' @ [Log Info ''Checking cluster resources...'', Call OcGetNodes,
               Log Info (''Found '' @ show_nat n @ '' GPU nodes''), Call OcDescribeNodes])"
    if "get_nodes env = Some n" and "0 < n" and "available_gpus (describe_nodes env) = Failed"
    for st'
    using that by (rule check_resources_query_failed)
  have failed_fatal: "\<not> exit_code_zero (fst (main env cfg))"
    if "get_nodes env = Some n" and "0 < n" and "available_gpus (describe_nodes env) = Failed"
    by (rule fatal) (simp add: failed [OF that])
  have failed_run: "main env cfg =
           (Halt ErrExit,
            st1 @ [Log Info ''Checking cluster resources...'', Call OcGetNodes,
                   Log Info (''Found '' @ show_nat n @ '' GPU nodes''), Call OcDescribeNodes,
                   Log Info (''Deployment log saved to: '' @ log_file cfg)])"
    if "get_nodes env = Some n" and "0 < n" and "available_gpus (describe_nodes env) = Failed"
      and "check_prerequisites env cfg (banner cfg) = (Ok, st1)"
  proof -
    have "stages env cfg (banner cfg) = and_then (check_resources env cfg) ?rest st1"
      unfolding stages_eq using that(4) by (rule and_then_eq_Ok)
    also have "\<dots> = (Halt ErrExit,
         st1 @ [Log Info ''Checking cluster resources...'', Call OcGetNodes,
               Log Info (''Found '' @ show_nat n @ '' GPU nodes''), Call OcDescribeNodes])"
      using failed [OF that(1,2,3), of st1] by (rule and_then_eq_Halt)
    finally show ?thesis
      by (simp add: main_def cleanup_def emits)
  qed
  have sat: "check_resources env cfg st' =
        check_storage env
          (st' @ [Log Info ''Checking cluster resources...'', Call OcGetNodes,
                 Log Info (''Found '' @ show_nat n @ '' GPU nodes''), Call OcDescribeNodes,
                 Log Warning ''No GPUs currently available''])"
    if "get_nodes env = Some n" and "0 < n"
      and "available_gpus (describe_nodes env) = Count 0" for st'
    using that by (auto simp: check_resources_def emits Let_def)
  have sat_ok: "check_resources env cfg st' =
           (Ok, st' @ [Log Info ''Checking cluster resources...'', Call OcGetNodes,
                      Log Info (''Found '' @ show_nat n @ '' GPU nodes''), Call OcDescribeNodes,
                      Log Warning ''No GPUs currently available'',
                      Call OcGetStorageclass, Log Success ''Resource check completed''])"
    if "get_nodes env = Some n" and "0 < n"
      and "available_gpus (describe_nodes env) = Count 0"
      and "get_storageclass env = Some k" and "0 < k" for st'
    using that(4,5) by (simp add: sat [OF that(1,2,3)] check_storage_def emits Let_def)
  have sat_run: "stages env cfg (banner cfg) =
              ?rest (st1 @ [Log Info ''Checking cluster resources...'', Call OcGetNodes,
                        Log Info (''Found '' @ show_nat n @ '' GPU nodes''), Call OcDescribeNodes,
                        Log Warning ''No GPUs currently available'',
                        Call OcGetStorageclass, Log Success ''Resource check completed''])"
    if "get_nodes env = Some n" and "0 < n"
      and "available_gpus (describe_nodes env) = Count 0"
      and "get_storageclass env = Some k" and "0 < k"
      and "check_prerequisites env cfg (banner cfg) = (Ok, st1)"
  proof -
    have "stages env cfg (banner cfg) = and_then (check_resources env cfg) ?rest st1"
      unfolding stages_eq using that(6) by (rule and_then_eq_Ok)
    also have "\<dots> = ?rest (st1 @ [Log Info ''Checking cluster resources...'', Call OcGetNodes,
                        Log Info (''Found '' @ show_nat n @ '' GPU nodes''), Call OcDescribeNodes,
                        Log Warning ''No GPUs currently available'',
                        Call OcGetStorageclass, Log Success ''Resource check completed''])"
      using sat_ok [OF that(1,2,3,4,5), of st1] by (rule and_then_eq_Ok)
    finally show ?thesis .
  qed
  from nodes [of st] nodes_fatal nodes_run storage [of st] storage_res [of st] storage_fatal
    failed [of st] failed_fatal failed_run sat [of st] sat_ok [of st] sat_run
  show ?thesis by blast
qed

subsection \<open>The commands at the start of a run\<close>

lemma calls_check_prerequisites_first:
  "take 1 (calls (snd (check_prerequisites env cfg []))) = [CommandV ''oc'']"
  by (simp add: check_prerequisites_def required_tools_def emits Let_def)

lemma calls_check_prerequisites_Ok:
  "fst (check_prerequisites env cfg []) = Ok \<Longrightarrow>
   calls (snd (check_prerequisites env cfg [])) =
     [CommandV ''oc'', CommandV ''kubectl'', CommandV ''helm'', CommandV ''jq'', OcWhoami]"
  by (simp add: check_prerequisites_def required_tools_def emits Let_def split: if_splits)

lemma calls_check_resources_first:
  "take 1 (calls (snd (check_resources env cfg []))) = [OcGetNodes]"
  by (simp add: check_resources_def check_storage_def emits Let_def
        split: option.splits query.splits)

lemma calls_check_resources_Ok:
  "fst (check_resources env cfg []) = Ok \<Longrightarrow>
   calls (snd (check_resources env cfg [])) = [OcGetNodes, OcDescribeNodes, OcGetStorageclass]"
  by (simp add: check_resources_def check_storage_def emits Let_def
        split: option.splits query.splits if_splits)

lemma calls_setup_namespace_first:
  "take 1 (calls (snd (setup_namespace env cfg []))) = [OcGetNamespace (namespace cfg)]"
  by (simp add: setup_namespace_def and_then_def ensure_namespace_def configure_rbac_def
        emits Let_def)

text \<open>Every run starts with the prerequisite check, and goes on to the resource check when it passes.\<close>

lemma validation_runs:
  "CommandV ''oc'' \<in> set (calls (snd (main env cfg))) \<and>
   take 1 (calls (snd (main env cfg))) = [CommandV ''oc''] \<and>
   (fst (check_prerequisites env cfg []) = Ok \<longrightarrow>
      OcGetNodes \<in> set (calls (snd (main env cfg))) \<and>
      take 6 (calls (snd (main env cfg))) =
        [CommandV ''oc'', CommandV ''kubectl'', CommandV ''helm'', CommandV ''jq'', OcWhoami,
         OcGetNodes]) \<and>
   (fst (check_prerequisites env cfg []) = Ok \<and> fst (check_resources env cfg []) = Ok \<longrightarrow>
      take 9 (calls (snd (main env cfg))) =
        [CommandV ''oc'', CommandV ''kubectl'', CommandV ''helm'', CommandV ''jq'', OcWhoami,
         OcGetNodes, OcDescribeNodes, OcGetStorageclass, OcGetNamespace (namespace cfg)])"
proof -
  obtain p ps where p: "calls (snd (check_prerequisites env cfg [])) = p # ps"
    using calls_check_prerequisites_first [of env cfg]
    by (cases "calls (snd (check_prerequisites env cfg []))") auto
  then have p1: "p = CommandV ''oc''"
    using calls_check_prerequisites_first [of env cfg] by simp
  obtain r rs where r: "calls (snd (check_resources env cfg [])) = r # rs"
    using calls_check_resources_first [of env cfg]
    by (cases "calls (snd (check_resources env cfg []))") auto
  then have r1: "r = OcGetNodes"
    using calls_check_resources_first [of env cfg] by simp
  obtain n ns where n: "calls (snd (setup_namespace env cfg [])) = n # ns"
    using calls_setup_namespace_first [of env cfg]
    by (cases "calls (snd (setup_namespace env cfg []))") auto
  then have n1: "n = OcGetNamespace (namespace cfg)"
    using calls_setup_namespace_first [of env cfg] by simp
  have a: "take 1 (calls (snd (main env cfg))) = [CommandV ''oc'']"
    by (simp add: calls_main calls_stages p p1)
  then have a': "CommandV ''oc'' \<in> set (calls (snd (main env cfg)))"
    by (metis in_set_takeD list.set_intros(1))
  have b: "take 6 (calls (snd (main env cfg))) =
        [CommandV ''oc'', CommandV ''kubectl'', CommandV ''helm'', CommandV ''jq'', OcWhoami,
         OcGetNodes]"
    if "fst (check_prerequisites env cfg []) = Ok"
    using that by (simp add: calls_main calls_stages calls_check_prerequisites_Ok r r1)
  then have b': "OcGetNodes \<in> set (calls (snd (main env cfg)))"
    if "fst (check_prerequisites env cfg []) = Ok"
    using that by (metis in_set_takeD list.set_intros(1) list.set_intros(2))
  have c: "take 9 (calls (snd (main env cfg))) =
        [CommandV ''oc'', CommandV ''kubectl'', CommandV ''helm'', CommandV ''jq'', OcWhoami,
         OcGetNodes, OcDescribeNodes, OcGetStorageclass, OcGetNamespace (namespace cfg)]"
    if "fst (check_prerequisites env cfg []) = Ok" and "fst (check_resources env cfg []) = Ok"
    using that
    by (simp add: calls_main calls_stages calls_check_prerequisites_Ok calls_check_resources_Ok
          n n1)
  from a a' b b' c show ?thesis by blast
qed


subsection \<open>Where the timeout goes\<close>

lemma fst_and_then:
  assumes "appends f" and "appends g"
  shows "fst (and_then f g st) = (case fst (f []) of Ok \<Rightarrow> fst (g []) | Halt h \<Rightarrow> Halt h)"
proof (cases "fst (f [])")
  case Ok
  then have "f st = (Ok, st @ snd (f []))"
    using assms(1) by (metis appends_def)
  then have "and_then f g st = g (st @ snd (f []))"
    by (rule and_then_eq_Ok)
  moreover have "fst (g (st @ snd (f []))) = fst (g [])"
    using assms(2) by (metis appends_def fst_conv)
  ultimately show ?thesis
    using Ok by simp
next
  case (Halt h)
  then have "f st = (Halt h, st @ snd (f []))"
    using assms(1) by (metis appends_def)
  then have "and_then f g st = (Halt h, st @ snd (f []))"
    by (rule and_then_eq_Halt)
  then show ?thesis
    using Halt by simp
qed

lemma fst_stages:
  "fst (stages env cfg st) =
     (case fst (check_prerequisites env cfg []) of Halt h \<Rightarrow> Halt h | Ok \<Rightarrow>
      case fst (check_resources env cfg []) of Halt h \<Rightarrow> Halt h | Ok \<Rightarrow>
      case fst (setup_namespace env cfg []) of Halt h \<Rightarrow> Halt h | Ok \<Rightarrow>
      case fst (deploy_model env cfg []) of Halt h \<Rightarrow> Halt h | Ok \<Rightarrow>
      case fst (monitor_deployment env cfg []) of Halt h \<Rightarrow> Halt h | Ok \<Rightarrow>
      fst (health_check env cfg []))"
proof -
  note a = appends_stage [of env cfg]
  have 5: "appends (and_then (monitor_deployment env cfg) (health_check env cfg))"
    by (intro appends_and_then a)
  have 4: "appends (and_then (deploy_model env cfg)
             (and_then (monitor_deployment env cfg) (health_check env cfg)))"
    by (intro appends_and_then a)
  have 3: "appends (and_then (setup_namespace env cfg) (and_then (deploy_model env cfg)
             (and_then (monitor_deployment env cfg) (health_check env cfg))))"
    by (intro appends_and_then a)
  have 2: "appends (and_then (check_resources env cfg) (and_then (setup_namespace env cfg)
             (and_then (deploy_model env cfg)
             (and_then (monitor_deployment env cfg) (health_check env cfg)))))"
    by (intro appends_and_then a)
  show ?thesis
    unfolding stages_def
    by (simp only: fst_and_then [OF a(1) 2] fst_and_then [OF a(2) 3]
          fst_and_then [OF a(3) 4] fst_and_then [OF a(4) 5]
          fst_and_then [OF a(5) a(6)])
qed

lemma timeout_check_prerequisites:
  "check_prerequisites env (cfg\<lparr>timeout := t\<rparr>) = check_prerequisites env cfg"
  by (rule ext) (simp add: check_prerequisites_def Let_def split: prod.splits outcome.splits)

lemma timeout_check_resources:
  "check_resources env (cfg\<lparr>timeout := t\<rparr>) = check_resources env cfg"
  by (rule ext) (simp add: check_resources_def Let_def split: option.splits query.splits)

lemma timeout_setup_namespace:
  "setup_namespace env (cfg\<lparr>timeout := t\<rparr>) = setup_namespace env cfg"
  by (rule ext)
     (simp add: setup_namespace_def and_then_def ensure_namespace_def configure_rbac_def
        rbac_path_def Let_def)

lemma timeout_health_check:
  "health_check env (cfg\<lparr>timeout := t\<rparr>) = health_check env cfg"
  by (rule ext) (simp add: health_check_def Let_def split: option.splits)

lemma timeout_verify_endpoints:
  "verify_endpoints env (cfg\<lparr>timeout := t\<rparr>) = verify_endpoints env cfg"
  by (intro ext) (simp add: verify_endpoints_def Let_def split: query.splits)

lemma timeout_reaches_helm:
  assumes "fst (check_prerequisites env cfg []) = Ok"
    and "fst (check_resources env cfg []) = Ok"
    and "fst (setup_namespace env cfg []) = Ok"
  shows "Helm (helm_args env (cfg\<lparr>timeout := t\<rparr>))
           \<in> set (calls (snd (main env (cfg\<lparr>timeout := t\<rparr>))))"
proof -
  have "calls (snd (deploy_model env (cfg\<lparr>timeout := t\<rparr>) []))
        = [Helm (helm_args env (cfg\<lparr>timeout := t\<rparr>))]"
    by (simp add: deploy_model_def emits Let_def)
  then show ?thesis
    using assms
    by (simp add: calls_main calls_stages timeout_check_prerequisites timeout_check_resources
          timeout_setup_namespace)
qed

lemma timeout_outcome:
  assumes "helm_ok env (helm_args env (cfg\<lparr>timeout := t\<rparr>)) = helm_ok env (helm_args env cfg)"
    and "\<And>dn. rollout_ok env dn (namespace cfg) (t @ ''s'')
              = rollout_ok env dn (namespace cfg) (timeout cfg @ ''s'')"
  shows "fst (main env (cfg\<lparr>timeout := t\<rparr>)) = fst (main env cfg)"
proof -
  have dm: "fst (deploy_model env (cfg\<lparr>timeout := t\<rparr>) []) = fst (deploy_model env cfg [])"
    using assms(1) by (simp add: deploy_model_def Let_def)
  have md: "fst (monitor_deployment env (cfg\<lparr>timeout := t\<rparr>) [])
            = fst (monitor_deployment env cfg [])"
    using assms(2)
    by (simp add: monitor_deployment_def verify_endpoints_def emits Let_def
          split: option.splits query.splits)
  have "fst (stages env (cfg\<lparr>timeout := t\<rparr>) st) = fst (stages env cfg st')" for st st'
    by (simp only: fst_stages timeout_check_prerequisites timeout_check_resources
          timeout_setup_namespace timeout_health_check dm md)
  then have "fst (stages env (cfg\<lparr>timeout := t\<rparr>) (banner (cfg\<lparr>timeout := t\<rparr>)))
             = fst (stages env cfg (banner cfg))" .
  then show ?thesis
    by (cases "stages env (cfg\<lparr>timeout := t\<rparr>) (banner (cfg\<lparr>timeout := t\<rparr>))";
        cases "stages env cfg (banner cfg)")
       (auto simp: main_def split: outcome.splits)
qed

lemma timeout_monitor_first:
  "\<not> dry_run cfg \<Longrightarrow> deployment_name (model_type cfg) = Some dn \<Longrightarrow>
   take 1 (calls (snd (monitor_deployment env (cfg\<lparr>timeout := t\<rparr>) [])))
     = [OcRolloutStatus dn (namespace cfg) (t @ ''s'')]"
  by (simp add: monitor_deployment_def verify_endpoints_def emits Let_def split: query.splits)

section \<open>The claims\<close>

text \<open>
  C1. In a dry run no command that changes the cluster is invoked: the namespace stage only
  looks the namespace up (no creation, no manifests applied), the release deployer calls helm
  with \<^verbatim>\<open>--dry-run\<close>, and the rollout monitor and the health check return at once
  without any command. The prerequisite check and the resource check do not read the
  dry-run flag, and their commands are run at the start of the dry run as in any run: the
  run starts with the look-up of \<^verbatim>\<open>oc\<close>; when the prerequisites pass, the four tool
  look-ups and \<^verbatim>\<open>oc whoami\<close> are followed by \<^verbatim>\<open>oc get nodes\<close>; when the resource
  check passes too, by \<^verbatim>\<open>oc describe nodes\<close>, \<^verbatim>\<open>oc get storageclass\<close> and then the
  namespace look-up.
\<close>

theorem dry_run_no_mutation:
  assumes "dry_run cfg"
  shows "(\<forall>c\<in>set (calls (snd (main env cfg))). \<not> mutating c) \<and>
     calls (snd (setup_namespace env cfg [])) = [OcGetNamespace (namespace cfg)] \<and>
     calls (snd (deploy_model env cfg [])) =
       [Helm (base_args cfg (values_file env cfg) @ model_args (model_type cfg)
              @ ''--dry-run'' # (if verbose cfg then [''--debug''] else []))] \<and>
     monitor_deployment env cfg st =
       (Ok, st @ [Log Info ''[DRY RUN] Skipping deployment monitoring'']) \<and>
     health_check env cfg st = (Ok, st @ [Log Info ''[DRY RUN] Skipping health checks'']) \<and>
     check_prerequisites env cfg st = check_prerequisites env (cfg\<lparr>dry_run := False\<rparr>) st \<and>
     check_resources env cfg st = check_resources env (cfg\<lparr>dry_run := False\<rparr>) st \<and>
     prefix (calls (snd (and_then (check_prerequisites env (cfg\<lparr>dry_run := False\<rparr>))
                                  (check_resources env (cfg\<lparr>dry_run := False\<rparr>)) [])))
            (calls (snd (main env cfg))) \<and>
     CommandV ''oc'' \<in> set (calls (snd (main env cfg))) \<and>
     take 1 (calls (snd (main env cfg))) = [CommandV ''oc''] \<and>
     (fst (check_prerequisites env cfg []) = Ok \<longrightarrow>
        OcGetNodes \<in> set (calls (snd (main env cfg))) \<and>
        take 6 (calls (snd (main env cfg))) =
          [CommandV ''oc'', CommandV ''kubectl'', CommandV ''helm'', CommandV ''jq'', OcWhoami,
           OcGetNodes]) \<and>
     (fst (check_prerequisites env cfg []) = Ok \<and> fst (check_resources env cfg []) = Ok \<longrightarrow>
        take 9 (calls (snd (main env cfg))) =
          [CommandV ''oc'', CommandV ''kubectl'', CommandV ''helm'', CommandV ''jq'', OcWhoami,
           OcGetNodes, OcDescribeNodes, OcGetStorageclass, OcGetNamespace (namespace cfg)])"
proof -
  have pre: "check_prerequisites env cfg st' = check_prerequisites env (cfg\<lparr>dry_run := False\<rparr>) st'"
    for st'
    by (simp add: check_prerequisites_def Let_def split: prod.splits outcome.splits)
  have res: "check_resources env cfg st' = check_resources env (cfg\<lparr>dry_run := False\<rparr>) st'"
    for st'
    by (simp add: check_resources_def Let_def split: option.splits query.splits)
  have mon: "calls (snd (monitor_deployment env cfg [])) = []"
    using assms by (simp add: dry_monitor_deployment)
  have hea: "calls (snd (health_check env cfg [])) = []"
    using assms by (simp add: dry_health_check)
  have quiet: "\<forall>c\<in>set (calls (snd (main env cfg))). \<not> mutating c"
    using quiet_check_prerequisites [of env cfg] quiet_check_resources [of env cfg]
    by (auto simp: calls_main calls_stages dry_setup_namespace [OF assms]
          dry_deploy_model [OF assms] mon hea split: if_splits)
  have "calls (snd (and_then (check_prerequisites env cfg) (check_resources env cfg) [])) =
        calls (snd (check_prerequisites env cfg [])) @
        (if fst (check_prerequisites env cfg []) = Ok
         then calls (snd (check_resources env cfg [])) else [])"
    using calls_and_then [OF appends_stage(1) appends_stage(2), of env cfg env cfg "[]"] by simp
  then have "prefix (calls (snd (and_then (check_prerequisites env cfg)
                                          (check_resources env cfg) [])))
                    (calls (snd (main env cfg)))"
    by (simp add: calls_main calls_stages)
  moreover have "check_prerequisites env (cfg\<lparr>dry_run := False\<rparr>) = check_prerequisites env cfg"
    and "check_resources env (cfg\<lparr>dry_run := False\<rparr>) = check_resources env cfg"
    using pre res by auto
  ultimately
  have pfx: "prefix (calls (snd (and_then (check_prerequisites env (cfg\<lparr>dry_run := False\<rparr>))
                                  (check_resources env (cfg\<lparr>dry_run := False\<rparr>)) [])))
            (calls (snd (main env cfg)))"
    by simp
  from quiet pre res pfx dry_setup_namespace [OF assms] dry_deploy_model [OF assms]
    dry_monitor_deployment [OF assms] dry_health_check [OF assms] validation_runs [of env cfg]
  show ?thesis by blast
qed

theorem dry_run_no_mutation_witness:
  "dry_run (request\<lparr>dry_run := True\<rparr>) \<and>
   filter mutating (calls (snd (main ready_cluster (request\<lparr>dry_run := True\<rparr>)))) = [] \<and>
   calls (snd (setup_namespace ready_cluster (request\<lparr>dry_run := True\<rparr>) []))
     = [OcGetNamespace ''ai-models''] \<and>
   calls (snd (deploy_model ready_cluster (request\<lparr>dry_run := True\<rparr>) [])) =
     [Helm [''upgrade'', ''--install'', ''llama-7b-staging'',
            ''/opt/mlops/deployments/helm/ai-models/'', ''--namespace'', ''ai-models'',
            ''--values'', ''/opt/mlops/deployments/helm/ai-models/values.yaml'',
            ''--timeout'', ''600s'', ''--wait'',
            ''--set'', ''llama.enabled=true'', ''--set'', ''llama.model.size=7b'',
            ''--set'', ''stableDiffusion.enabled=false'', ''--dry-run'']] \<and>
   fst (check_prerequisites ready_cluster (request\<lparr>dry_run := True\<rparr>) []) = Ok \<and>
   fst (check_resources ready_cluster (request\<lparr>dry_run := True\<rparr>) []) = Ok \<and>
   take 9 (calls (snd (main ready_cluster (request\<lparr>dry_run := True\<rparr>)))) =
     [CommandV ''oc'', CommandV ''kubectl'', CommandV ''helm'', CommandV ''jq'', OcWhoami,
      OcGetNodes, OcDescribeNodes, OcGetStorageclass, OcGetNamespace ''ai-models''] \<and>
   main ready_cluster (request\<lparr>dry_run := True\<rparr>) =
     (Ok,
      [Log Info ''Starting AI model deployment'',
       Log Info ''Model: llama-7b, Environment: staging, Namespace: ai-models'',
       Log Info ''Dry run: true, Verbose: false'',
       Log Info ''Checking prerequisites...'',
       Call (CommandV ''oc''), Call (CommandV ''kubectl''),
       Call (CommandV ''helm''), Call (CommandV ''jq''),
       Call OcWhoami,
       Log Success ''Prerequisites check passed'',
       Log Info ''Checking cluster resources...'', Call OcGetNodes,
       Log Info ''Found 3 GPU nodes'', Call OcDescribeNodes,
       Log Info ''Available GPUs: 2'', Call OcGetStorageclass,
       Log Success ''Resource check completed'',
       Log Info ''Setting up namespace: ai-models'',
       Call (OcGetNamespace ''ai-models''),
       Log Info ''[DRY RUN] Would create namespace: ai-models'',
       Log Info ''Configuring RBAC...'',
       Log Info ''[DRY RUN] Would apply RBAC configurations'',
       Log Info ''Deploying model: llama-7b'',
       Log Warning
        ''Environment-specific values file not found: /opt/mlops/deployments/helm/ai-models/values-staging.yaml'',
       Log Info ''[DRY RUN] Helm deployment command:'',
       Log Info
        ''helm upgrade --install llama-7b-staging /opt/mlops/deployments/helm/ai-models/ --namespace ai-models --values /opt/mlops/deployments/helm/ai-models/values.yaml --timeout 600s --wait --set llama.enabled=true --set llama.model.size=7b --set stableDiffusion.enabled=false --dry-run'',
       Call (Helm [''upgrade'', ''--install'', ''llama-7b-staging'',
            ''/opt/mlops/deployments/helm/ai-models/'', ''--namespace'', ''ai-models'',
            ''--values'', ''/opt/mlops/deployments/helm/ai-models/values.yaml'',
            ''--timeout'', ''600s'', ''--wait'',
            ''--set'', ''llama.enabled=true'', ''--set'', ''llama.model.size=7b'',
            ''--set'', ''stableDiffusion.enabled=false'', ''--dry-run'']),
       Log Success ''Model deployment completed'',
       Log Info ''[DRY RUN] Skipping deployment monitoring'',
       Log Info ''[DRY RUN] Skipping health checks'',
       Log Success ''Deployment completed successfully!'',
       Log Info ''Deployment log saved to: /tmp/model-deployment.log''])"
proof -
  let ?cfg = "request\<lparr>dry_run := True\<rparr>"
  have h: "dry_run ?cfg"
    by simp
  have two: "show_nat 2 = ''2''" and three: "show_nat 3 = ''3''"
    by (simp_all add: show_nat.simps digit_char_def)
  have pre: "fst (check_prerequisites ready_cluster ?cfg []) = Ok"
    by (simp add: check_prerequisites_def required_tools_def model_accepted_def
          valid_models_def request_def defaults_def ready_cluster_def emits Let_def)
  have res: "fst (check_resources ready_cluster ?cfg []) = Ok"
    by (simp add: check_resources_def check_storage_def ready_cluster_def emits Let_def)
  have run: "main ready_cluster ?cfg =
     (Ok,
      [Log Info ''Starting AI model deployment'',
       Log Info ''Model: llama-7b, Environment: staging, Namespace: ai-models'',
       Log Info ''Dry run: true, Verbose: false'',
       Log Info ''Checking prerequisites...'',
       Call (CommandV ''oc''), Call (CommandV ''kubectl''),
       Call (CommandV ''helm''), Call (CommandV ''jq''),
       Call OcWhoami,
       Log Success ''Prerequisites check passed'',
       Log Info ''Checking cluster resources...'', Call OcGetNodes,
       Log Info ''Found 3 GPU nodes'', Call OcDescribeNodes,
       Log Info ''Available GPUs: 2'', Call OcGetStorageclass,
       Log Success ''Resource check completed'',
       Log Info ''Setting up namespace: ai-models'',
       Call (OcGetNamespace ''ai-models''),
       Log Info ''[DRY RUN] Would create namespace: ai-models'',
       Log Info ''Configuring RBAC...'',
       Log Info ''[DRY RUN] Would apply RBAC configurations'',
       Log Info ''Deploying model: llama-7b'',
       Log Warning
        ''Environment-specific values file not found: /opt/mlops/deployments/helm/ai-models/values-staging.yaml'',
       Log Info ''[DRY RUN] Helm deployment command:'',
       Log Info
        ''helm upgrade --install llama-7b-staging /opt/mlops/deployments/helm/ai-models/ --namespace ai-models --values /opt/mlops/deployments/helm/ai-models/values.yaml --timeout 600s --wait --set llama.enabled=true --set llama.model.size=7b --set stableDiffusion.enabled=false --dry-run'',
       Call (Helm [''upgrade'', ''--install'', ''llama-7b-staging'',
            ''/opt/mlops/deployments/helm/ai-models/'', ''--namespace'', ''ai-models'',
            ''--values'', ''/opt/mlops/deployments/helm/ai-models/values.yaml'',
            ''--timeout'', ''600s'', ''--wait'',
            ''--set'', ''llama.enabled=true'', ''--set'', ''llama.model.size=7b'',
            ''--set'', ''stableDiffusion.enabled=false'', ''--dry-run'']),
       Log Success ''Model deployment completed'',
       Log Info ''[DRY RUN] Skipping deployment monitoring'',
       Log Info ''[DRY RUN] Skipping health checks'',
       Log Success ''Deployment completed successfully!'',
       Log Info ''Deployment log saved to: /tmp/model-deployment.log''])"
    by (simp add: main_def banner_def cleanup_def show_bool_def run_defs rbac_path_def
          helm_args_def base_args_def model_args_def mode_args_def values_file_def
          env_values_file_def default_values_file_def helm_release_def chart_dir_def
          two three)
  from dry_run_no_mutation [OF h, of ready_cluster "[]"]
  have "\<forall>c\<in>set (calls (snd (main ready_cluster ?cfg))). \<not> mutating c"
    by (rule conjunct1)
  then have q: "filter mutating (calls (snd (main ready_cluster ?cfg))) = []"
    by (simp only: filter_empty_conv)
  have sn: "calls (snd (setup_namespace ready_cluster ?cfg [])) = [OcGetNamespace ''ai-models'']"
    by (simp add: setup_namespace_def and_then_def ensure_namespace_def configure_rbac_def
          request_def defaults_def ready_cluster_def emits Let_def)
  have dm: "calls (snd (deploy_model ready_cluster ?cfg [])) =
     [Helm [''upgrade'', ''--install'', ''llama-7b-staging'',
            ''/opt/mlops/deployments/helm/ai-models/'', ''--namespace'', ''ai-models'',
            ''--values'', ''/opt/mlops/deployments/helm/ai-models/values.yaml'',
            ''--timeout'', ''600s'', ''--wait'',
            ''--set'', ''llama.enabled=true'', ''--set'', ''llama.model.size=7b'',
            ''--set'', ''stableDiffusion.enabled=false'', ''--dry-run'']]"
    by (simp add: deploy_model_def helm_args_def base_args_def model_args_def mode_args_def
          values_file_def env_values_file_def default_values_file_def helm_release_def
          chart_dir_def request_def defaults_def ready_cluster_def emits Let_def)
  have t9: "take 9 (calls (snd (main ready_cluster ?cfg))) =
     [CommandV ''oc'', CommandV ''kubectl'', CommandV ''helm'', CommandV ''jq'', OcWhoami,
      OcGetNodes, OcDescribeNodes, OcGetStorageclass, OcGetNamespace ''ai-models'']"
    by (simp add: run)
  show ?thesis
    by (intro conjI h q sn dm pre res t9 run)
qed

text \<open>
  C2. The claim's third verdict (zero allocatable units with nodes present: a warning only,
  and the pipeline continues) is not what the script does on the text of
  \<^verbatim>\<open>oc describe nodes\<close>. With three accelerator nodes and a node whose allocatable
  count is 0, no line names both the resource and a section, the second \<^verbatim>\<open>grep\<close>
  selects nothing, and \<^verbatim>\<open>set -e\<close> stops the script at line 167: no warning and no
  error is logged, the storage classes are not looked at, no later stage runs, and the exit
  code is not zero.
\<close>

theorem resource_audit_zero_units_stops:
  "get_nodes (ready_cluster\<lparr>describe_nodes := Some describe_zero_units\<rparr>) = Some 3 \<and>
   filter alloc_line (filter gpu_line describe_zero_units) = [] \<and>
   available_gpus (describe_nodes (ready_cluster\<lparr>describe_nodes := Some describe_zero_units\<rparr>))
     = Failed \<and>
   main (ready_cluster\<lparr>describe_nodes := Some describe_zero_units\<rparr>) request =
     (Halt ErrExit,
      [Log Info ''Starting AI model deployment'',
       Log Info ''Model: llama-7b, Environment: staging, Namespace: ai-models'',
       Log Info ''Dry run: false, Verbose: false'',
       Log Info ''Checking prerequisites...'',
       Call (CommandV ''oc''), Call (CommandV ''kubectl''),
       Call (CommandV ''helm''), Call (CommandV ''jq''),
       Call OcWhoami,
       Log Success ''Prerequisites check passed'',
       Log Info ''Checking cluster resources...'', Call OcGetNodes,
       Log Info ''Found 3 GPU nodes'', Call OcDescribeNodes,
       Log Info ''Deployment log saved to: /tmp/model-deployment.log'']) \<and>
   logged Warning (snd (main (ready_cluster\<lparr>describe_nodes := Some describe_zero_units\<rparr>) request))
     = [] \<and>
   \<not> exit_code_zero (fst (main (ready_cluster\<lparr>describe_nodes := Some describe_zero_units\<rparr>) request))"
proof -
  let ?env = "ready_cluster\<lparr>describe_nodes := Some describe_zero_units\<rparr>"
  have nodes: "get_nodes ?env = Some 3 \<and> (0::nat) < 3"
    by (simp add: ready_cluster_def)
  have lines: "filter alloc_line (filter gpu_line describe_zero_units) = []"
    by (simp add: describe_zero_units_def gpu_line_def alloc_line_def sublist_Cons_right)
  have query: "available_gpus (describe_nodes ?env) = Failed"
    by simp
  have three: "show_nat 3 = ''3''"
    by (simp add: show_nat.simps digit_char_def)
  have pre: "check_prerequisites ?env request (banner request) =
     (Ok,
      [Log Info ''Starting AI model deployment'',
       Log Info ''Model: llama-7b, Environment: staging, Namespace: ai-models'',
       Log Info ''Dry run: false, Verbose: false'',
       Log Info ''Checking prerequisites...'',
       Call (CommandV ''oc''), Call (CommandV ''kubectl''),
       Call (CommandV ''helm''), Call (CommandV ''jq''),
       Call OcWhoami,
       Log Success ''Prerequisites check passed''])"
    by (simp add: check_prerequisites_def required_tools_def model_accepted_def
          valid_models_def banner_def show_bool_def request_def defaults_def
          ready_cluster_def emits Let_def)
  have run: "main ?env request =
     (Halt ErrExit,
      [Log Info ''Starting AI model deployment'',
       Log Info ''Model: llama-7b, Environment: staging, Namespace: ai-models'',
       Log Info ''Dry run: false, Verbose: false'',
       Log Info ''Checking prerequisites...'',
       Call (CommandV ''oc''), Call (CommandV ''kubectl''),
       Call (CommandV ''helm''), Call (CommandV ''jq''),
       Call OcWhoami,
       Log Success ''Prerequisites check passed'',
       Log Info ''Checking cluster resources...'', Call OcGetNodes,
       Log Info ''Found 3 GPU nodes'', Call OcDescribeNodes,
       Log Info ''Deployment log saved to: /tmp/model-deployment.log''])"
    using nodes query pre
      resource_audit_legs [where env = ?env and cfg = request and n = 3 and k = 1
        and st = "[]" and ?st1.0 = "snd (check_prerequisites ?env request (banner request))"]
    by (simp add: three request_def defaults_def)
  show ?thesis
    using nodes lines query run by (simp add: exit_code_zero_def)
qed

text \<open>
  C3 (as amended). For every model type that is outside the five valid names and contains no
  space, the run stops with exit code 1 inside the prerequisite check: the only commands run
  are the tool look-ups and the session check \<^verbatim>\<open>oc whoami\<close>, and no later stage
  starts. When the four tools are installed and the session is authenticated, the error
  logged is the invalid-model-type error; it is logged after \<^verbatim>\<open>oc whoami\<close>, the one
  command addressed to the cluster, has been run.
\<close>

theorem invalid_model_type_rejected:
  assumes "model_type cfg \<notin> set valid_models" and "CHR '' '' \<notin> set (model_type cfg)"
  shows "fst (main env cfg) = Halt Exit1 \<and>
     prefix (calls (snd (main env cfg)))
       [CommandV ''oc'', CommandV ''kubectl'', CommandV ''helm'', CommandV ''jq'', OcWhoami] \<and>
     ((\<forall>tool\<in>set required_tools. installed env tool) \<and> whoami_ok env \<longrightarrow>
        main env cfg =
          (Halt Exit1,
           banner cfg @
           [Log Info ''Checking prerequisites...'',
            Call (CommandV ''oc''), Call (CommandV ''kubectl''),
            Call (CommandV ''helm''), Call (CommandV ''jq''),
            Call OcWhoami,
            Log Error (''Invalid model type: '' @ model_type cfg),
            Log Info ''Valid models: llama-7b llama-13b llama-70b stable-diffusion code-llama'',
            Log Info (''Deployment log saved to: '' @ log_file cfg)]) \<and>
        filter cluster_call (calls (snd (main env cfg))) = [OcWhoami])"
proof -
  have no: "\<not> model_accepted (model_type cfg)"
    using assms by (simp add: model_accepted_iff)
  let ?st = "banner cfg @ [Log Info ''Checking prerequisites...'']"
  obtain r st2 where tools: "check_tools env required_tools ?st = (r, st2)"
    by (cases "check_tools env required_tools ?st")
  have r: "r = Ok \<or> r = Halt Exit1"
    using check_tools_required_Halt [of env ?st] tools by simp
  have pfx: "prefix (calls st2)
     [CommandV ''oc'', CommandV ''kubectl'', CommandV ''helm'', CommandV ''jq'']"
    using check_tools_required_calls [of env ?st] tools by simp
  have full: "calls st2 = [CommandV ''oc'', CommandV ''kubectl'', CommandV ''helm'', CommandV ''jq'']"
    if "r = Ok"
    using check_tools_required_Ok [of env ?st] tools that by simp
  have pre: "fst (check_prerequisites env cfg (banner cfg)) = Halt Exit1 \<and>
     prefix (calls (snd (check_prerequisites env cfg (banner cfg))))
       [CommandV ''oc'', CommandV ''kubectl'', CommandV ''helm'', CommandV ''jq'', OcWhoami]"
  proof (cases "r = Ok")
    case True
    then show ?thesis
      using tools no full
      by (simp add: check_prerequisites_def emits Let_def)
  next
    case False
    with r have h: "r = Halt Exit1" by simp
    from pfx have "prefix (calls st2)
       ([CommandV ''oc'', CommandV ''kubectl'', CommandV ''helm'', CommandV ''jq''] @ [OcWhoami])"
      by (rule prefix_prefix)
    then show ?thesis
      using tools h by (simp add: check_prerequisites_def emits Let_def)
  qed
  obtain st1 where cp: "check_prerequisites env cfg (banner cfg) = (Halt Exit1, st1)"
    using pre by (cases "check_prerequisites env cfg (banner cfg)") auto
  have st: "stages env cfg (banner cfg) = (Halt Exit1, st1)"
    unfolding stages_def using cp by (rule and_then_eq_Halt)
  have a: "fst (main env cfg) = Halt Exit1"
    using st by (simp add: main_def)
  have b: "prefix (calls (snd (main env cfg)))
       [CommandV ''oc'', CommandV ''kubectl'', CommandV ''helm'', CommandV ''jq'', OcWhoami]"
    using pre cp st by (simp add: calls_main)
  have c: "main env cfg =
          (Halt Exit1,
           banner cfg @
           [Log Info ''Checking prerequisites...'',
            Call (CommandV ''oc''), Call (CommandV ''kubectl''),
            Call (CommandV ''helm''), Call (CommandV ''jq''),
            Call OcWhoami,
            Log Error (''Invalid model type: '' @ model_type cfg),
            Log Info ''Valid models: llama-7b llama-13b llama-70b stable-diffusion code-llama'',
            Log Info (''Deployment log saved to: '' @ log_file cfg)]) \<and>
        filter cluster_call (calls (snd (main env cfg))) = [OcWhoami]"
    if "\<forall>tool\<in>set required_tools. installed env tool" and "whoami_ok env"
  proof -
    have "check_prerequisites env cfg (banner cfg) =
          (Halt Exit1,
           banner cfg @
           [Log Info ''Checking prerequisites...'',
            Call (CommandV ''oc''), Call (CommandV ''kubectl''),
            Call (CommandV ''helm''), Call (CommandV ''jq''),
            Call OcWhoami,
            Log Error (''Invalid model type: '' @ model_type cfg),
            Log Info ''Valid models: llama-7b llama-13b llama-70b stable-diffusion code-llama''])"
      using no that
      by (simp add: check_prerequisites_def emits Let_def required_tools_def valid_models_def)
    then have "stages env cfg (banner cfg) =
          (Halt Exit1,
           banner cfg @
           [Log Info ''Checking prerequisites...'',
            Call (CommandV ''oc''), Call (CommandV ''kubectl''),
            Call (CommandV ''helm''), Call (CommandV ''jq''),
            Call OcWhoami,
            Log Error (''Invalid model type: '' @ model_type cfg),
            Log Info ''Valid models: llama-7b llama-13b llama-70b stable-diffusion code-llama''])"
      unfolding stages_def by (rule and_then_eq_Halt)
    then show ?thesis
      by (simp add: main_def cleanup_def emits)
  qed
  from a b c show ?thesis by blast
qed

theorem invalid_model_type_rejected_witness:
  "''bert-base'' \<notin> set valid_models \<and> CHR '' '' \<notin> set ''bert-base'' \<and>
   installed ready_cluster ''oc'' \<and> installed ready_cluster ''kubectl'' \<and>
   installed ready_cluster ''helm'' \<and> installed ready_cluster ''jq'' \<and>
   whoami_ok ready_cluster \<and>
   fst (main ready_cluster (request\<lparr>model_type := ''bert-base''\<rparr>)) = Halt Exit1 \<and>
   filter cluster_call (calls (snd (main ready_cluster (request\<lparr>model_type := ''bert-base''\<rparr>))))
     = [OcWhoami] \<and>
   logged Error (snd (main ready_cluster (request\<lparr>model_type := ''bert-base''\<rparr>)))
     = [''Invalid model type: bert-base'']"
proof -
  have h1: "model_type (request\<lparr>model_type := ''bert-base''\<rparr>) \<notin> set valid_models"
    by (simp add: valid_models_def)
  have h2: "CHR '' '' \<notin> set (model_type (request\<lparr>model_type := ''bert-base''\<rparr>))"
    by simp
  have h3: "(\<forall>tool\<in>set required_tools. installed ready_cluster tool) \<and> whoami_ok ready_cluster"
    by (simp add: ready_cluster_def)
  show ?thesis
    using h1 h2 h3 invalid_model_type_rejected [OF h1 h2, of ready_cluster]
    by (simp add: banner_def emits required_tools_def)
qed

text \<open>
  C3 as stated fails: for the model type \<^verbatim>\<open>gpt-4\<close> on a cluster where everything is in
  place, \<^verbatim>\<open>oc whoami\<close> is run before the model type is rejected, so the commands
  addressed to the cluster before the rejection are not zero.
\<close>

theorem invalid_model_type_counterexample:
  "''gpt-4'' \<notin> set valid_models \<and>
   main ready_cluster (request\<lparr>model_type := ''gpt-4''\<rparr>) =
     (Halt Exit1,
      [Log Info ''Starting AI model deployment'',
       Log Info ''Model: gpt-4, Environment: staging, Namespace: ai-models'',
       Log Info ''Dry run: false, Verbose: false'',
       Log Info ''Checking prerequisites...'',
       Call (CommandV ''oc''), Call (CommandV ''kubectl''),
       Call (CommandV ''helm''), Call (CommandV ''jq''),
       Call OcWhoami,
       Log Error ''Invalid model type: gpt-4'',
       Log Info ''Valid models: llama-7b llama-13b llama-70b stable-diffusion code-llama'',
       Log Info ''Deployment log saved to: /tmp/model-deployment.log'']) \<and>
   filter cluster_call (calls (snd (main ready_cluster (request\<lparr>model_type := ''gpt-4''\<rparr>))))
     = [OcWhoami]"
proof -
  have "\<not> model_accepted ''gpt-4''"
    by (simp add: model_accepted_iff valid_models_def)
  then have "main ready_cluster (request\<lparr>model_type := ''gpt-4''\<rparr>) =
     (Halt Exit1,
      [Log Info ''Starting AI model deployment'',
       Log Info ''Model: gpt-4, Environment: staging, Namespace: ai-models'',
       Log Info ''Dry run: false, Verbose: false'',
       Log Info ''Checking prerequisites...'',
       Call (CommandV ''oc''), Call (CommandV ''kubectl''),
       Call (CommandV ''helm''), Call (CommandV ''jq''),
       Call OcWhoami,
       Log Error ''Invalid model type: gpt-4'',
       Log Info ''Valid models: llama-7b llama-13b llama-70b stable-diffusion code-llama'',
       Log Info ''Deployment log saved to: /tmp/model-deployment.log''])"
    by (simp add: main_def stages_def and_then_def check_prerequisites_def required_tools_def
          valid_models_def banner_def cleanup_def show_bool_def request_def defaults_def
          ready_cluster_def emits Let_def)
  then show ?thesis
    by (simp add: valid_models_def)
qed

text \<open>
  C4 (as amended). The prerequisite check looks the tools up in the order oc, kubectl, helm,
  jq and stops the run with exit code 1 at the first missing one: it logs one error, for
  that tool, and the tools after it are not looked up.
\<close>

theorem first_missing_tool_aborts:
  assumes "required_tools = pre @ tool # post"
    and "\<forall>t\<in>set pre. installed env t" and "\<not> installed env tool"
  shows "check_prerequisites env cfg st =
       (Halt Exit1,
        st @ Log Info ''Checking prerequisites...'' # map (\<lambda>t. Call (CommandV t)) pre
           @ [Call (CommandV tool), Log Error (tool @ '' is not installed or not in PATH'')]) \<and>
     fst (main env cfg) = Halt Exit1 \<and>
     logged Error (snd (main env cfg)) = [tool @ '' is not installed or not in PATH''] \<and>
     calls (snd (main env cfg)) = map CommandV pre @ [CommandV tool] \<and>
     (\<forall>t\<in>set post. CommandV t \<notin> set (calls (snd (main env cfg))))"
proof -
  have cp: "check_prerequisites env cfg st' =
       (Halt Exit1,
        st' @ Log Info ''Checking prerequisites...'' # map (\<lambda>t. Call (CommandV t)) pre
           @ [Call (CommandV tool), Log Error (tool @ '' is not installed or not in PATH'')])"
    for st'
    using check_tools_first_missing [OF assms(2,3), of post "st' @ [Log Info ''Checking prerequisites...'']"]
    by (simp add: check_prerequisites_def assms(1) emits Let_def)
  have "stages env cfg (banner cfg) =
       (Halt Exit1,
        banner cfg @ Log Info ''Checking prerequisites...'' # map (\<lambda>t. Call (CommandV t)) pre
           @ [Call (CommandV tool), Log Error (tool @ '' is not installed or not in PATH'')])"
    unfolding stages_def using cp [of "banner cfg"] by (rule and_then_eq_Halt)
  then have m: "main env cfg =
       (Halt Exit1,
        cleanup cfg
         (banner cfg @ Log Info ''Checking prerequisites...'' # map (\<lambda>t. Call (CommandV t)) pre
           @ [Call (CommandV tool), Log Error (tool @ '' is not installed or not in PATH'')]))"
    by (rule main_eq_Halt)
  have cm: "calls (map (\<lambda>t. Call (CommandV t)) ts) = map CommandV ts" for ts
    by (induction ts) simp_all
  have lm: "logged Error (map (\<lambda>t. Call (CommandV t)) ts) = []" for ts
    by (induction ts) simp_all
  have a: "fst (main env cfg) = Halt Exit1"
    by (simp add: m)
  have b: "logged Error (snd (main env cfg)) = [tool @ '' is not installed or not in PATH'']"
    by (simp add: m cleanup_def banner_def emits lm)
  have c: "calls (snd (main env cfg)) = map CommandV pre @ [CommandV tool]"
    by (simp add: m cleanup_def emits cm)
  have "distinct (pre @ tool # post)"
    using assms(1) [symmetric] by (simp add: required_tools_def)
  then have d: "\<forall>t\<in>set post. CommandV t \<notin> set (calls (snd (main env cfg)))"
    by (auto simp: c)
  from cp [of st] a b c d show ?thesis by blast
qed

theorem first_missing_tool_aborts_witness:
  "required_tools = [''oc'', ''kubectl''] @ ''helm'' # [''jq''] \<and>
   installed (ready_cluster\<lparr>installed := (\<lambda>tool. tool = ''oc'' \<or> tool = ''kubectl'')\<rparr>) ''oc'' \<and>
   installed (ready_cluster\<lparr>installed := (\<lambda>tool. tool = ''oc'' \<or> tool = ''kubectl'')\<rparr>) ''kubectl'' \<and>
   \<not> installed (ready_cluster\<lparr>installed := (\<lambda>tool. tool = ''oc'' \<or> tool = ''kubectl'')\<rparr>) ''helm'' \<and>
   \<not> installed (ready_cluster\<lparr>installed := (\<lambda>tool. tool = ''oc'' \<or> tool = ''kubectl'')\<rparr>) ''jq'' \<and>
   logged Error (snd (main (ready_cluster\<lparr>installed := (\<lambda>tool. tool = ''oc'' \<or> tool = ''kubectl'')\<rparr>) request))
     = [''helm is not installed or not in PATH''] \<and>
   calls (snd (main (ready_cluster\<lparr>installed := (\<lambda>tool. tool = ''oc'' \<or> tool = ''kubectl'')\<rparr>) request))
     = [CommandV ''oc'', CommandV ''kubectl'', CommandV ''helm'']"
proof -
  let ?env = "ready_cluster\<lparr>installed := (\<lambda>tool. tool = ''oc'' \<or> tool = ''kubectl'')\<rparr>"
  have h1: "required_tools = [''oc'', ''kubectl''] @ ''helm'' # [''jq'']"
    by (simp add: required_tools_def)
  have h2: "\<forall>t\<in>set [''oc'', ''kubectl'']. installed ?env t"
    by simp
  have h3: "\<not> installed ?env ''helm''"
    by simp
  show ?thesis
    using h1 h2 h3 first_missing_tool_aborts [OF h1 h2 h3, of request "[]"]
    by simp
qed

text \<open>
  C4 as stated fails: with both \<^verbatim>\<open>oc\<close> and \<^verbatim>\<open>jq\<close> missing, the run logs the error for
  \<^verbatim>\<open>oc\<close> only and never looks \<^verbatim>\<open>jq\<close> up.
\<close>

theorem missing_tools_counterexample:
  "\<not> installed (ready_cluster\<lparr>installed := (\<lambda>tool. tool = ''kubectl'' \<or> tool = ''helm'')\<rparr>) ''oc'' \<and>
   \<not> installed (ready_cluster\<lparr>installed := (\<lambda>tool. tool = ''kubectl'' \<or> tool = ''helm'')\<rparr>) ''jq'' \<and>
   main (ready_cluster\<lparr>installed := (\<lambda>tool. tool = ''kubectl'' \<or> tool = ''helm'')\<rparr>) request =
     (Halt Exit1,
      [Log Info ''Starting AI model deployment'',
       Log Info ''Model: llama-7b, Environment: staging, Namespace: ai-models'',
       Log Info ''Dry run: false, Verbose: false'',
       Log Info ''Checking prerequisites...'',
       Call (CommandV ''oc''),
       Log Error ''oc is not installed or not in PATH'',
       Log Info ''Deployment log saved to: /tmp/model-deployment.log''])"
  by (simp add: main_def stages_def and_then_def check_prerequisites_def required_tools_def
        banner_def cleanup_def show_bool_def request_def defaults_def ready_cluster_def
        emits Let_def)

text \<open>
  C5. The model-specific part of the release specification: for \<^verbatim>\<open>llama-70b\<close> it carries
  the memory override (128Gi) and the accelerator override (4 units); for \<^verbatim>\<open>code-llama\<close>
  it is the \<^verbatim>\<open>llama-7b\<close> profile (llama enabled, size 7b, diffusion disabled) with the
  variant flag added. No other model type gets the memory or accelerator override, and no
  other model type gets the variant flag. The release deployer submits the base arguments
  followed by this model-specific part and the mode flags.
\<close>

theorem release_overrides:
  "model_args ''llama-70b'' =
     [''--set'', ''llama.enabled=true'', ''--set'', ''llama.model.size=70b'',
      ''--set'', ''stableDiffusion.enabled=false'',
      ''--set'', ''llama.resources.requests.memory=128Gi'',
      ''--set'', ''llama.resources.requests.nvidia'' @ [CHR 0x5C] @ ''.com/gpu=4''] \<and>
   model_args ''llama-7b'' =
     [''--set'', ''llama.enabled=true'', ''--set'', ''llama.model.size=7b'',
      ''--set'', ''stableDiffusion.enabled=false''] \<and>
   model_args ''code-llama'' =
     [''--set'', ''llama.enabled=true'', ''--set'', ''llama.model.size=7b'',
      ''--set'', ''llama.model.variant=code'',
      ''--set'', ''stableDiffusion.enabled=false''] \<and>
   (m \<noteq> ''llama-70b'' \<longrightarrow>
      ''llama.resources.requests.memory=128Gi'' \<notin> set (model_args m) \<and>
      ''llama.resources.requests.nvidia'' @ [CHR 0x5C] @ ''.com/gpu=4'' \<notin> set (model_args m)) \<and>
   (m \<noteq> ''code-llama'' \<longrightarrow> ''llama.model.variant=code'' \<notin> set (model_args m)) \<and>
   calls (snd (deploy_model env cfg [])) =
     [Helm (base_args cfg (values_file env cfg) @ model_args (model_type cfg) @ mode_args cfg)]"
proof -
  have a: "model_args ''llama-70b'' =
     [''--set'', ''llama.enabled=true'', ''--set'', ''llama.model.size=70b'',
      ''--set'', ''stableDiffusion.enabled=false'',
      ''--set'', ''llama.resources.requests.memory=128Gi'',
      ''--set'', ''llama.resources.requests.nvidia'' @ [CHR 0x5C] @ ''.com/gpu=4'']"
    by (simp add: model_args_def memory_override_def gpu_override_def)
  have b: "model_args ''llama-7b'' =
     [''--set'', ''llama.enabled=true'', ''--set'', ''llama.model.size=7b'',
      ''--set'', ''stableDiffusion.enabled=false'']"
    by (simp add: model_args_def)
  have c: "model_args ''code-llama'' =
     [''--set'', ''llama.enabled=true'', ''--set'', ''llama.model.size=7b'',
      ''--set'', ''llama.model.variant=code'',
      ''--set'', ''stableDiffusion.enabled=false'']"
    by (simp add: model_args_def variant_override_def)
  have d: "''llama.resources.requests.memory=128Gi'' \<notin> set (model_args m) \<and>
      ''llama.resources.requests.nvidia'' @ [CHR 0x5C] @ ''.com/gpu=4'' \<notin> set (model_args m)"
    if "m \<noteq> ''llama-70b''"
    using that by (simp add: model_args_def variant_override_def)
  have e: "''llama.model.variant=code'' \<notin> set (model_args m)" if "m \<noteq> ''code-llama''"
    using that by (simp add: model_args_def memory_override_def gpu_override_def)
  have f: "calls (snd (deploy_model env cfg [])) =
     [Helm (base_args cfg (values_file env cfg) @ model_args (model_type cfg) @ mode_args cfg)]"
    by (simp add: deploy_model_def helm_args_def emits Let_def)
  from a b c d e f show ?thesis by blast
qed

theorem release_overrides_witness:
  "''llama-13b'' \<noteq> ''llama-70b'' \<and> ''llama-13b'' \<noteq> ''code-llama'' \<and>
   ''llama.resources.requests.memory=128Gi'' \<notin> set (model_args ''llama-13b'') \<and>
   ''llama.model.variant=code'' \<notin> set (model_args ''llama-13b'') \<and>
   calls (snd (deploy_model ready_cluster (request\<lparr>model_type := ''llama-70b''\<rparr>) [])) =
     [Helm [''upgrade'', ''--install'', ''llama-70b-staging'',
            ''/opt/mlops/deployments/helm/ai-models/'', ''--namespace'', ''ai-models'',
            ''--values'', ''/opt/mlops/deployments/helm/ai-models/values.yaml'',
            ''--timeout'', ''600s'', ''--wait'',
            ''--set'', ''llama.enabled=true'', ''--set'', ''llama.model.size=70b'',
            ''--set'', ''stableDiffusion.enabled=false'',
            ''--set'', ''llama.resources.requests.memory=128Gi'',
            ''--set'', ''llama.resources.requests.nvidia'' @ [CHR 0x5C] @ ''.com/gpu=4'']]"
  using release_overrides [of "''llama-13b''" ready_cluster "request\<lparr>model_type := ''llama-70b''\<rparr>"]
  by (simp add: base_args_def values_file_def mode_args_def request_def defaults_def
        ready_cluster_def helm_release_def chart_dir_def env_values_file_def
        default_values_file_def)

text \<open>
  C6. Outside a dry run, when \<^verbatim>\<open>oc rollout status\<close> does not report readiness within
  the timeout, the rollout monitor logs the error, fetches the last 50 lines of the pods'
  logs and stops the run with a non-zero exit code; the health check is not started.
\<close>

theorem rollout_timeout_fetches_logs:
  assumes "\<not> dry_run cfg"
    and "deployment_name (model_type cfg) = Some dn"
    and "\<not> rollout_ok env dn (namespace cfg) (timeout cfg @ ''s'')"
  shows "monitor_deployment env cfg st =
       (Halt (if logs_ok env dn (namespace cfg) then Exit1 else ErrExit),
        st @ [Log Info ''Monitoring deployment progress...'',
              Log Info (''Waiting for deployment '' @ dn @ '' to be ready...''),
              Call (OcRolloutStatus dn (namespace cfg) (timeout cfg @ ''s'')),
              Log Error (''Deployment '' @ dn @ '' failed to become ready within timeout''),
              Log Info ''Showing pod logs for debugging:'',
              Call (OcLogs dn (namespace cfg) 50)]) \<and>
     \<not> exit_code_zero (fst (main env cfg)) \<and>
     (upto_deploy env cfg (banner cfg) = (Ok, st4) \<longrightarrow>
        main env cfg =
          (Halt (if logs_ok env dn (namespace cfg) then Exit1 else ErrExit),
           st4 @ [Log Info ''Monitoring deployment progress...'',
                  Log Info (''Waiting for deployment '' @ dn @ '' to be ready...''),
                  Call (OcRolloutStatus dn (namespace cfg) (timeout cfg @ ''s'')),
                  Log Error (''Deployment '' @ dn @ '' failed to become ready within timeout''),
                  Log Info ''Showing pod logs for debugging:'',
                  Call (OcLogs dn (namespace cfg) 50),
                  Log Info (''Deployment log saved to: '' @ log_file cfg)]))"
proof -
  have mon: "monitor_deployment env cfg st' =
       (Halt (if logs_ok env dn (namespace cfg) then Exit1 else ErrExit),
        st' @ [Log Info ''Monitoring deployment progress...'',
              Log Info (''Waiting for deployment '' @ dn @ '' to be ready...''),
              Call (OcRolloutStatus dn (namespace cfg) (timeout cfg @ ''s'')),
              Log Error (''Deployment '' @ dn @ '' failed to become ready within timeout''),
              Log Info ''Showing pod logs for debugging:'',
              Call (OcLogs dn (namespace cfg) 50)])" for st'
    using assms by (simp add: monitor_deployment_def emits Let_def)
  have "fst (and_then (monitor_deployment env cfg) (health_check env cfg) st') \<noteq> Ok" for st'
    by (rule not_Ok_and_then_left) (simp add: mon)
  then have "fst (stages env cfg (banner cfg)) \<noteq> Ok"
    unfolding stages_upto_deploy by (rule not_Ok_and_then)
  then have fatal: "\<not> exit_code_zero (fst (main env cfg))"
    by (simp add: exit_code_zero_def main_Ok)
  have run: "main env cfg =
          (Halt (if logs_ok env dn (namespace cfg) then Exit1 else ErrExit),
           st4 @ [Log Info ''Monitoring deployment progress...'',
                  Log Info (''Waiting for deployment '' @ dn @ '' to be ready...''),
                  Call (OcRolloutStatus dn (namespace cfg) (timeout cfg @ ''s'')),
                  Log Error (''Deployment '' @ dn @ '' failed to become ready within timeout''),
                  Log Info ''Showing pod logs for debugging:'',
                  Call (OcLogs dn (namespace cfg) 50),
                  Log Info (''Deployment log saved to: '' @ log_file cfg)])"
    if "upto_deploy env cfg (banner cfg) = (Ok, st4)"
  proof -
    have "stages env cfg (banner cfg) =
            and_then (monitor_deployment env cfg) (health_check env cfg) st4"
      unfolding stages_upto_deploy using that by (rule and_then_eq_Ok)
    also have "\<dots> = (Halt (if logs_ok env dn (namespace cfg) then Exit1 else ErrExit),
        st4 @ [Log Info ''Monitoring deployment progress...'',
              Log Info (''Waiting for deployment '' @ dn @ '' to be ready...''),
              Call (OcRolloutStatus dn (namespace cfg) (timeout cfg @ ''s'')),
              Log Error (''Deployment '' @ dn @ '' failed to become ready within timeout''),
              Log Info ''Showing pod logs for debugging:'',
              Call (OcLogs dn (namespace cfg) 50)])"
      using mon [of st4] by (rule and_then_eq_Halt)
    finally show ?thesis
      by (simp add: main_def cleanup_def emits)
  qed
  from mon [of st] fatal run show ?thesis by blast
qed

theorem rollout_timeout_fetches_logs_witness:
  "\<not> dry_run request \<and>
   deployment_name (model_type request) = Some ''llama-7b-inference'' \<and>
   \<not> rollout_ok (ready_cluster\<lparr>rollout_ok := (\<lambda>dn ns t. False)\<rparr>)
        ''llama-7b-inference'' (namespace request) (timeout request @ ''s'') \<and>
   fst (upto_deploy (ready_cluster\<lparr>rollout_ok := (\<lambda>dn ns t. False)\<rparr>) request (banner request)) = Ok \<and>
   main (ready_cluster\<lparr>rollout_ok := (\<lambda>dn ns t. False)\<rparr>) request =
     (Halt Exit1,
      snd (upto_deploy (ready_cluster\<lparr>rollout_ok := (\<lambda>dn ns t. False)\<rparr>) request (banner request))
      @ [Log Info ''Monitoring deployment progress...'',
         Log Info ''Waiting for deployment llama-7b-inference to be ready...'',
         Call (OcRolloutStatus ''llama-7b-inference'' ''ai-models'' ''600s''),
         Log Error ''Deployment llama-7b-inference failed to become ready within timeout'',
         Log Info ''Showing pod logs for debugging:'',
         Call (OcLogs ''llama-7b-inference'' ''ai-models'' 50),
         Log Info ''Deployment log saved to: /tmp/model-deployment.log''])"
proof -
  let ?env = "ready_cluster\<lparr>rollout_ok := (\<lambda>dn ns t. False)\<rparr>"
  have h1: "\<not> dry_run request"
    by (simp add: request_def defaults_def)
  have h2: "deployment_name (model_type request) = Some ''llama-7b-inference''"
    by (simp add: request_def defaults_def deployment_name_def)
  have h3: "\<not> rollout_ok ?env ''llama-7b-inference'' (namespace request) (timeout request @ ''s'')"
    by simp
  have h4: "fst (upto_deploy ?env request (banner request)) = Ok"
    by (simp add: upto_deploy_def and_then_def check_prerequisites_def required_tools_def
          model_accepted_def valid_models_def check_resources_def check_storage_def
          setup_namespace_def ensure_namespace_def configure_rbac_def deploy_model_def
          request_def defaults_def ready_cluster_def emits Let_def)
  then have h5: "upto_deploy ?env request (banner request)
                 = (Ok, snd (upto_deploy ?env request (banner request)))"
    by (metis prod.collapse)
  show ?thesis
    using h1 h2 h3 h4
      rollout_timeout_fetches_logs [OF h1 h2 h3, where st = "[]"
        and ?st4.0 = "snd (upto_deploy ?env request (banner request))"] h5
    by (simp add: request_def defaults_def ready_cluster_def)
qed

text \<open>
  C7. In the health check, a missing route is a warning: the stage succeeds and a run that
  got this far ends with exit code 0. A route that exists, with a host whose health request
  fails, is an error: the stage exits with code 1 and the run ends with a non-zero code.
\<close>

theorem health_route_verdict:
  assumes "\<not> dry_run cfg" and "route_name (model_type cfg) = Some rn"
  shows "(\<not> route_exists env rn (namespace cfg) \<longrightarrow>
       health_check env cfg st =
         (Ok, st @ [Log Info ''Running health checks...'',
                    Call (OcGetRoute rn (namespace cfg)),
                    Log Warning (''Route '' @ rn @ '' not found, skipping external health check'')]) \<and>
       (upto_monitor env cfg (banner cfg) = (Ok, st5) \<longrightarrow>
          exit_code_zero (fst (main env cfg)) \<and>
          main env cfg =
            (Ok, st5 @ [Log Info ''Running health checks...'',
                        Call (OcGetRoute rn (namespace cfg)),
                        Log Warning (''Route '' @ rn @ '' not found, skipping external health check''),
                        Log Success ''Deployment completed successfully!'',
                        Log Info (''Deployment log saved to: '' @ log_file cfg)]))) \<and>
     (route_exists env rn (namespace cfg) \<and> route_host env rn (namespace cfg) = Some host \<and>
      \<not> curl_ok env (''https://'' @ host @ ''/health'') \<longrightarrow>
       health_check env cfg st =
         (Halt Exit1,
          st @ [Log Info ''Running health checks...'',
                Call (OcGetRoute rn (namespace cfg)),
                Call (OcGetRouteHost rn (namespace cfg)),
                Log Info (''Testing health endpoint: https://'' @ host @ ''/health''),
                Call (Curl (''https://'' @ host @ ''/health'')),
                Log Error ''Health check failed'']) \<and>
       \<not> exit_code_zero (fst (main env cfg)))"
proof -
  have absent: "health_check env cfg st' =
         (Ok, st' @ [Log Info ''Running health checks...'',
                    Call (OcGetRoute rn (namespace cfg)),
                    Log Warning (''Route '' @ rn @ '' not found, skipping external health check'')])"
    if "\<not> route_exists env rn (namespace cfg)" for st'
    using assms that by (simp add: health_check_def emits Let_def)
  have run: "exit_code_zero (fst (main env cfg)) \<and>
          main env cfg =
            (Ok, st5 @ [Log Info ''Running health checks...'',
                        Call (OcGetRoute rn (namespace cfg)),
                        Log Warning (''Route '' @ rn @ '' not found, skipping external health check''),
                        Log Success ''Deployment completed successfully!'',
                        Log Info (''Deployment log saved to: '' @ log_file cfg)])"
    if "\<not> route_exists env rn (namespace cfg)" and "upto_monitor env cfg (banner cfg) = (Ok, st5)"
  proof -
    have "stages env cfg (banner cfg) = health_check env cfg st5"
      unfolding stages_upto_monitor using that(2) by (rule and_then_eq_Ok)
    then show ?thesis
      by (simp add: absent [OF that(1)] main_def cleanup_def emits exit_code_zero_def)
  qed
  have failing: "health_check env cfg st' =
         (Halt Exit1,
          st' @ [Log Info ''Running health checks...'',
                Call (OcGetRoute rn (namespace cfg)),
                Call (OcGetRouteHost rn (namespace cfg)),
                Log Info (''Testing health endpoint: https://'' @ host @ ''/health''),
                Call (Curl (''https://'' @ host @ ''/health'')),
                Log Error ''Health check failed''])"
    if "route_exists env rn (namespace cfg)" and "route_host env rn (namespace cfg) = Some host"
      and "\<not> curl_ok env (''https://'' @ host @ ''/health'')" for st'
    using assms that by (simp add: health_check_def emits Let_def)
  have fatal: "\<not> exit_code_zero (fst (main env cfg))"
    if "route_exists env rn (namespace cfg)" and "route_host env rn (namespace cfg) = Some host"
      and "\<not> curl_ok env (''https://'' @ host @ ''/health'')"
  proof -
    have "fst (health_check env cfg st') \<noteq> Ok" for st'
      by (simp add: failing [OF that])
    then have "fst (stages env cfg (banner cfg)) \<noteq> Ok"
      unfolding stages_upto_monitor by (rule not_Ok_and_then)
    then show ?thesis
      by (simp add: exit_code_zero_def main_Ok)
  qed
  from absent [of st] run failing [of st] fatal show ?thesis by blast
qed

theorem health_route_verdict_witness:
  "\<not> dry_run request \<and> route_name (model_type request) = Some ''llama-7b-route'' \<and>
   \<not> route_exists (ready_cluster\<lparr>route_exists := (\<lambda>rn ns. False)\<rparr>)
        ''llama-7b-route'' (namespace request) \<and>
   fst (upto_monitor (ready_cluster\<lparr>route_exists := (\<lambda>rn ns. False)\<rparr>) request (banner request)) = Ok \<and>
   exit_code_zero (fst (main (ready_cluster\<lparr>route_exists := (\<lambda>rn ns. False)\<rparr>) request)) \<and>
   logged Warning
     (snd (health_check (ready_cluster\<lparr>route_exists := (\<lambda>rn ns. False)\<rparr>) request []))
     = [''Route llama-7b-route not found, skipping external health check''] \<and>
   route_exists (ready_cluster\<lparr>curl_ok := (\<lambda>url. False)\<rparr>) ''llama-7b-route'' (namespace request) \<and>
   route_host (ready_cluster\<lparr>curl_ok := (\<lambda>url. False)\<rparr>) ''llama-7b-route'' (namespace request)
     = Some ''models.example.com'' \<and>
   \<not> curl_ok (ready_cluster\<lparr>curl_ok := (\<lambda>url. False)\<rparr>) ''https://models.example.com/health'' \<and>
   \<not> exit_code_zero (fst (main (ready_cluster\<lparr>curl_ok := (\<lambda>url. False)\<rparr>) request)) \<and>
   logged Error (snd (health_check (ready_cluster\<lparr>curl_ok := (\<lambda>url. False)\<rparr>) request []))
     = [''Health check failed'']"
proof -
  let ?absent = "ready_cluster\<lparr>route_exists := (\<lambda>rn ns. False)\<rparr>"
  let ?failing = "ready_cluster\<lparr>curl_ok := (\<lambda>url. False)\<rparr>"
  have h1: "\<not> dry_run request"
    by (simp add: request_def defaults_def)
  have h2: "route_name (model_type request) = Some ''llama-7b-route''"
    by (simp add: request_def defaults_def route_name_def)
  have h3: "fst (upto_monitor ?absent request (banner request)) = Ok"
    by (simp add: run_defs)
  then have h4: "upto_monitor ?absent request (banner request)
                 = (Ok, snd (upto_monitor ?absent request (banner request)))"
    by (metis prod.collapse)
  show ?thesis
    using h1 h2 h3
      health_route_verdict [OF h1 h2, where env = ?absent and st = "[]"
        and ?st5.0 = "snd (upto_monitor ?absent request (banner request))"] h4
      health_route_verdict [OF h1 h2, where env = ?failing and host = "''models.example.com''"
        and st = "[]"]
    by (simp add: request_def defaults_def ready_cluster_def exit_code_zero_def)
qed

text \<open>
  C8. When the environment-specific values file is absent, the release deployer logs one
  warning and passes the default values file to helm; when it is present, no warning is
  logged and the environment-specific file is passed. In both cases helm is called, and the
  stage fails exactly when helm fails.
\<close>

theorem values_file_fallback:
  "(\<not> file_exists env (env_values_file cfg) \<longrightarrow>
      logged Warning (snd (deploy_model env cfg [])) =
        [''Environment-specific values file not found: '' @ env_values_file cfg] \<and>
      take 8 (helm_args env cfg) =
        [''upgrade'', ''--install'', helm_release cfg, chart_dir cfg,
         ''--namespace'', namespace cfg, ''--values'', default_values_file cfg]) \<and>
   (file_exists env (env_values_file cfg) \<longrightarrow>
      logged Warning (snd (deploy_model env cfg [])) = [] \<and>
      take 8 (helm_args env cfg) =
        [''upgrade'', ''--install'', helm_release cfg, chart_dir cfg,
         ''--namespace'', namespace cfg, ''--values'', env_values_file cfg]) \<and>
   calls (snd (deploy_model env cfg st)) = calls st @ [Helm (helm_args env cfg)] \<and>
   fst (deploy_model env cfg st) = (if helm_ok env (helm_args env cfg) then Ok else Halt Exit1) \<and>
   logged Error (snd (deploy_model env cfg [])) =
     (if helm_ok env (helm_args env cfg) then [] else [''Model deployment failed''])"
  by (simp add: deploy_model_def helm_args_def base_args_def values_file_def emits Let_def)

theorem values_file_fallback_witness:
  "\<not> file_exists ready_cluster (env_values_file request) \<and>
   file_exists (ready_cluster\<lparr>file_exists := (\<lambda>path. True)\<rparr>) (env_values_file request) \<and>
   logged Warning (snd (deploy_model ready_cluster request [])) =
     [''Environment-specific values file not found: /opt/mlops/deployments/helm/ai-models/values-staging.yaml''] \<and>
   helm_args ready_cluster request ! 7 = ''/opt/mlops/deployments/helm/ai-models/values.yaml'' \<and>
   fst (deploy_model ready_cluster request []) = Ok \<and>
   helm_args (ready_cluster\<lparr>file_exists := (\<lambda>path. True)\<rparr>) request ! 7
     = ''/opt/mlops/deployments/helm/ai-models/values-staging.yaml''"
  using values_file_fallback [of ready_cluster request "[]"]
    values_file_fallback [of "ready_cluster\<lparr>file_exists := (\<lambda>path. True)\<rparr>" request "[]"]
  by (simp add: request_def defaults_def ready_cluster_def env_values_file_def
        default_values_file_def helm_args_def base_args_def values_file_def)

text \<open>
  C9 (as amended). The script does not validate the timeout. The text given to
  \<^verbatim>\<open>-t\<close> or \<^verbatim>\<open>--timeout\<close> is stored as it is; the prerequisite check, the resource
  check and the namespace setup do not read it; the release deployer passes it, followed by
  \<^verbatim>\<open>s\<close>, to helm as the value of \<^verbatim>\<open>--timeout\<close>, the rollout monitor passes it
  the same way to \<^verbatim>\<open>oc rollout status\<close>, and the health check does not read it.
  Whatever the text is, the run starts with the prerequisite check, and when the first three
  stages pass helm is called with it. No run is stopped for its timeout: when helm and
  \<^verbatim>\<open>oc rollout status\<close> answer as they do for another timeout, the run ends as it does
  for that timeout.
\<close>

theorem timeout_passed_verbatim:
  "parse_args (''-t'' # t # rest) cfg = parse_args rest (cfg\<lparr>timeout := t\<rparr>) \<and>
   parse_args (''--timeout'' # t # rest) cfg = parse_args rest (cfg\<lparr>timeout := t\<rparr>) \<and>
   deploy_script env pd lf [''-t'', t] = main env ((defaults pd lf)\<lparr>timeout := t\<rparr>) \<and>
   check_prerequisites env (cfg\<lparr>timeout := t\<rparr>) = check_prerequisites env cfg \<and>
   check_resources env (cfg\<lparr>timeout := t\<rparr>) = check_resources env cfg \<and>
   setup_namespace env (cfg\<lparr>timeout := t\<rparr>) = setup_namespace env cfg \<and>
   take 2 (drop 8 (helm_args env (cfg\<lparr>timeout := t\<rparr>))) = [''--timeout'', t @ ''s''] \<and>
   calls (snd (deploy_model env (cfg\<lparr>timeout := t\<rparr>) [])) = [Helm (helm_args env (cfg\<lparr>timeout := t\<rparr>))] \<and>
   health_check env (cfg\<lparr>timeout := t\<rparr>) = health_check env cfg \<and>
   (\<not> dry_run cfg \<and> deployment_name (model_type cfg) = Some dn \<longrightarrow>
      take 1 (calls (snd (monitor_deployment env (cfg\<lparr>timeout := t\<rparr>) [])))
        = [OcRolloutStatus dn (namespace cfg) (t @ ''s'')]) \<and>
   take 1 (calls (snd (main env (cfg\<lparr>timeout := t\<rparr>)))) = [CommandV ''oc''] \<and>
   (fst (check_prerequisites env cfg []) = Ok \<and> fst (check_resources env cfg []) = Ok \<and>
    fst (setup_namespace env cfg []) = Ok \<longrightarrow>
      Helm (helm_args env (cfg\<lparr>timeout := t\<rparr>))
        \<in> set (calls (snd (main env (cfg\<lparr>timeout := t\<rparr>))))) \<and>
   (helm_ok env (helm_args env (cfg\<lparr>timeout := t\<rparr>)) = helm_ok env (helm_args env cfg) \<and>
    (\<forall>name. rollout_ok env name (namespace cfg) (t @ ''s'')
              = rollout_ok env name (namespace cfg) (timeout cfg @ ''s'')) \<longrightarrow>
      fst (main env (cfg\<lparr>timeout := t\<rparr>)) = fst (main env cfg))"
proof -
  have a: "parse_args (''-t'' # t # rest) cfg = parse_args rest (cfg\<lparr>timeout := t\<rparr>)"
    by simp
  have b: "parse_args (''--timeout'' # t # rest) cfg = parse_args rest (cfg\<lparr>timeout := t\<rparr>)"
    by simp
  have c: "deploy_script env pd lf [''-t'', t] = main env ((defaults pd lf)\<lparr>timeout := t\<rparr>)"
    by (simp add: deploy_script_def)
  have d: "check_prerequisites env (cfg\<lparr>timeout := t\<rparr>) = check_prerequisites env cfg"
    by (rule ext) (simp add: check_prerequisites_def Let_def split: prod.splits outcome.splits)
  have e: "check_resources env (cfg\<lparr>timeout := t\<rparr>) = check_resources env cfg"
    by (rule ext) (simp add: check_resources_def Let_def split: option.splits query.splits)
  have f: "setup_namespace env (cfg\<lparr>timeout := t\<rparr>) = setup_namespace env cfg"
    by (rule ext)
       (simp add: setup_namespace_def and_then_def ensure_namespace_def configure_rbac_def
          rbac_path_def Let_def)
  have g: "take 2 (drop 8 (helm_args env (cfg\<lparr>timeout := t\<rparr>))) = [''--timeout'', t @ ''s'']"
    by (simp add: helm_args_def base_args_def)
  have h: "calls (snd (deploy_model env (cfg\<lparr>timeout := t\<rparr>) []))
           = [Helm (helm_args env (cfg\<lparr>timeout := t\<rparr>))]"
    by (simp add: deploy_model_def emits Let_def)
  have i: "health_check env (cfg\<lparr>timeout := t\<rparr>) = health_check env cfg"
    by (rule timeout_health_check)
  have j: "take 1 (calls (snd (monitor_deployment env (cfg\<lparr>timeout := t\<rparr>) [])))
        = [OcRolloutStatus dn (namespace cfg) (t @ ''s'')]"
    if "\<not> dry_run cfg" and "deployment_name (model_type cfg) = Some dn"
    using that by (rule timeout_monitor_first)
  have k: "take 1 (calls (snd (main env (cfg\<lparr>timeout := t\<rparr>)))) = [CommandV ''oc'']"
    using validation_runs [of env "cfg\<lparr>timeout := t\<rparr>"] by blast
  have l: "Helm (helm_args env (cfg\<lparr>timeout := t\<rparr>))
        \<in> set (calls (snd (main env (cfg\<lparr>timeout := t\<rparr>))))"
    if "fst (check_prerequisites env cfg []) = Ok" and "fst (check_resources env cfg []) = Ok"
      and "fst (setup_namespace env cfg []) = Ok"
    using that by (rule timeout_reaches_helm)
  have m: "fst (main env (cfg\<lparr>timeout := t\<rparr>)) = fst (main env cfg)"
    if "helm_ok env (helm_args env (cfg\<lparr>timeout := t\<rparr>)) = helm_ok env (helm_args env cfg)"
      and "\<forall>name. rollout_ok env name (namespace cfg) (t @ ''s'')
              = rollout_ok env name (namespace cfg) (timeout cfg @ ''s'')"
    using that by (intro timeout_outcome) auto
  from a b c d e f g h i j k l m show ?thesis by blast
qed

theorem timeout_passed_verbatim_witness:
  "\<not> dry_run request \<and> deployment_name (model_type request) = Some ''llama-7b-inference'' \<and>
   take 1 (calls (snd (monitor_deployment ready_cluster (request\<lparr>timeout := ''abc''\<rparr>) [])))
     = [OcRolloutStatus ''llama-7b-inference'' ''ai-models'' ''abcs''] \<and>
   fst (check_prerequisites ready_cluster request []) = Ok \<and>
   fst (check_resources ready_cluster request []) = Ok \<and>
   fst (setup_namespace ready_cluster request []) = Ok \<and>
   Helm (helm_args ready_cluster (request\<lparr>timeout := ''abc''\<rparr>))
     \<in> set (calls (snd (main ready_cluster (request\<lparr>timeout := ''abc''\<rparr>)))) \<and>
   take 2 (drop 8 (helm_args ready_cluster (request\<lparr>timeout := ''abc''\<rparr>)))
     = [''--timeout'', ''abcs''] \<and>
   helm_ok ready_cluster (helm_args ready_cluster (request\<lparr>timeout := ''abc''\<rparr>))
     = helm_ok ready_cluster (helm_args ready_cluster request) \<and>
   rollout_ok ready_cluster ''llama-7b-inference'' (namespace request) ''abcs''
     = rollout_ok ready_cluster ''llama-7b-inference'' (namespace request) (timeout request @ ''s'') \<and>
   fst (main ready_cluster request) = Ok \<and>
   fst (main ready_cluster (request\<lparr>timeout := ''abc''\<rparr>)) = Ok"
proof -
  note T = timeout_passed_verbatim [where env = ready_cluster and cfg = request
      and t = "''abc''" and dn = "''llama-7b-inference''"]
  have h1: "\<not> dry_run request"
    by (simp add: request_def defaults_def)
  have h2: "deployment_name (model_type request) = Some ''llama-7b-inference''"
    by (simp add: request_def defaults_def deployment_name_def)
  have mon: "take 1 (calls (snd (monitor_deployment ready_cluster (request\<lparr>timeout := ''abc''\<rparr>) [])))
     = [OcRolloutStatus ''llama-7b-inference'' ''ai-models'' ''abcs'']"
    using T h1 h2 by (simp add: request_def defaults_def)
  have pre: "fst (check_prerequisites ready_cluster request []) = Ok"
    by (simp add: check_prerequisites_def required_tools_def model_accepted_def
          valid_models_def request_def defaults_def ready_cluster_def emits Let_def)
  have res: "fst (check_resources ready_cluster request []) = Ok"
    by (simp add: check_resources_def check_storage_def ready_cluster_def emits Let_def)
  have sn: "fst (setup_namespace ready_cluster request []) = Ok"
    by (simp add: setup_namespace_def and_then_def ensure_namespace_def configure_rbac_def
          request_def defaults_def ready_cluster_def emits Let_def)
  have helm: "Helm (helm_args ready_cluster (request\<lparr>timeout := ''abc''\<rparr>))
     \<in> set (calls (snd (main ready_cluster (request\<lparr>timeout := ''abc''\<rparr>))))"
    using T pre res sn by blast
  have args: "take 2 (drop 8 (helm_args ready_cluster (request\<lparr>timeout := ''abc''\<rparr>)))
     = [''--timeout'', ''abcs'']"
    using T by simp
  have same_helm: "helm_ok ready_cluster (helm_args ready_cluster (request\<lparr>timeout := ''abc''\<rparr>))
     = helm_ok ready_cluster (helm_args ready_cluster request)"
    by (simp add: ready_cluster_def)
  have same_rollout: "rollout_ok ready_cluster name (namespace request) ''abcs''
     = rollout_ok ready_cluster name (namespace request) (timeout request @ ''s'')" for name
    by (simp add: ready_cluster_def)
  have ok: "fst (main ready_cluster request) = Ok"
    by (simp add: main_Ok fst_stages check_prerequisites_def required_tools_def
          model_accepted_def valid_models_def check_resources_def check_storage_def
          setup_namespace_def and_then_def ensure_namespace_def configure_rbac_def
          deploy_model_def monitor_deployment_def verify_endpoints_def deployment_name_def
          health_check_def route_name_def request_def defaults_def ready_cluster_def emits
          Let_def)
  have "fst (main ready_cluster (request\<lparr>timeout := ''abc''\<rparr>)) = fst (main ready_cluster request)"
    using T same_helm same_rollout by simp
  then have ok': "fst (main ready_cluster (request\<lparr>timeout := ''abc''\<rparr>)) = Ok"
    using ok by simp
  show ?thesis
    by (intro conjI h1 h2 mon pre res sn helm args same_helm same_rollout ok ok')
qed

text \<open>
  C9 as stated fails: with \<^verbatim>\<open>-t 0\<close> the script is not stopped before the stages. It runs
  the prerequisite check and the resource check, creates the namespace, applies the
  access-control manifests, and calls helm with \<^verbatim>\<open>--timeout 0s\<close>; here the run stops
  only because helm fails.
\<close>

theorem timeout_not_validated_counterexample:
  "deploy_script (ready_cluster\<lparr>helm_ok := (\<lambda>args. False)\<rparr>)
     ''/opt/mlops'' ''/tmp/model-deployment.log'' [''-t'', ''0''] =
     (Halt Exit1,
      [Log Info ''Starting AI model deployment'',
       Log Info ''Model: llama-7b, Environment: staging, Namespace: ai-models'',
       Log Info ''Dry run: false, Verbose: false'',
       Log Info ''Checking prerequisites...'',
       Call (CommandV ''oc''), Call (CommandV ''kubectl''),
       Call (CommandV ''helm''), Call (CommandV ''jq''),
       Call OcWhoami,
       Log Success ''Prerequisites check passed'',
       Log Info ''Checking cluster resources...'', Call OcGetNodes,
       Log Info ''Found 3 GPU nodes'', Call OcDescribeNodes,
       Log Info ''Available GPUs: 2'', Call OcGetStorageclass,
       Log Success ''Resource check completed'',
       Log Info ''Setting up namespace: ai-models'',
       Call (OcGetNamespace ''ai-models''),
       Call (OcCreateNamespace ''ai-models''),
       Log Success ''Created namespace: ai-models'',
       Log Info ''Configuring RBAC...'',
       Call (OcApply ''/opt/mlops/deployments/openshift/rbac/'' ''ai-models''),
       Log Success ''RBAC configured'',
       Log Info ''Deploying model: llama-7b'',
       Log Warning
        ''Environment-specific values file not found: /opt/mlops/deployments/helm/ai-models/values-staging.yaml'',
       Call (Helm
         [''upgrade'', ''--install'', ''llama-7b-staging'',
          ''/opt/mlops/deployments/helm/ai-models/'', ''--namespace'', ''ai-models'',
          ''--values'', ''/opt/mlops/deployments/helm/ai-models/values.yaml'',
          ''--timeout'', ''0s'', ''--wait'',
          ''--set'', ''llama.enabled=true'', ''--set'', ''llama.model.size=7b'',
          ''--set'', ''stableDiffusion.enabled=false'']),
       Log Error ''Model deployment failed'',
       Log Info ''Deployment log saved to: /tmp/model-deployment.log''])"
proof -
  have two: "show_nat 2 = ''2''" and three: "show_nat 3 = ''3''"
    by (simp_all add: show_nat.simps digit_char_def)
  show ?thesis
    by (simp add: deploy_script_def main_def stages_def and_then_def check_prerequisites_def
          required_tools_def model_accepted_def valid_models_def check_resources_def
          check_storage_def setup_namespace_def ensure_namespace_def configure_rbac_def
          rbac_path_def deploy_model_def helm_args_def base_args_def model_args_def
          mode_args_def values_file_def env_values_file_def default_values_file_def
          helm_release_def chart_dir_def banner_def cleanup_def show_bool_def request_def
          defaults_def ready_cluster_def emits Let_def two three)
qed

text \<open>
  C10. The rollout monitor maps \<^verbatim>\<open>llama-7b\<close>, \<^verbatim>\<open>llama-13b\<close>, \<^verbatim>\<open>llama-70b\<close> and
  \<^verbatim>\<open>code-llama\<close> to the workload \<^verbatim>\<open>llama-7b-inference\<close> and only
  \<^verbatim>\<open>stable-diffusion\<close> to \<^verbatim>\<open>stable-diffusion-xl\<close>; a run that is not a dry run, for
  \<^verbatim>\<open>llama-13b\<close> or \<^verbatim>\<open>llama-70b\<close>, polls the rollout of \<^verbatim>\<open>llama-7b-inference\<close> and of
  no other workload (and polls nothing when an earlier stage stops the run).
\<close>

theorem monitor_workload_name:
  "deployment_name ''llama-7b'' = Some ''llama-7b-inference'' \<and>
   deployment_name ''llama-13b'' = Some ''llama-7b-inference'' \<and>
   deployment_name ''llama-70b'' = Some ''llama-7b-inference'' \<and>
   deployment_name ''code-llama'' = Some ''llama-7b-inference'' \<and>
   deployment_name ''stable-diffusion'' = Some ''stable-diffusion-xl'' \<and>
   (\<not> dry_run cfg \<and> (model_type cfg = ''llama-13b'' \<or> model_type cfg = ''llama-70b'') \<longrightarrow>
      polled (snd (monitor_deployment env cfg [])) = [''llama-7b-inference''] \<and>
      (polled (snd (main env cfg)) = [] \<or>
       polled (snd (main env cfg)) = [''llama-7b-inference'']))"
proof -
  have names:
    "deployment_name ''llama-7b'' = Some ''llama-7b-inference''"
    "deployment_name ''llama-13b'' = Some ''llama-7b-inference''"
    "deployment_name ''llama-70b'' = Some ''llama-7b-inference''"
    "deployment_name ''code-llama'' = Some ''llama-7b-inference''"
    "deployment_name ''stable-diffusion'' = Some ''stable-diffusion-xl''"
    by (simp_all add: deployment_name_def)
  have "polled (snd (verify_endpoints env cfg svc st)) = polled st" for svc st
    by (simp add: verify_endpoints_def emits Let_def split: query.splits)
  then have poll: "polled (snd (monitor_deployment env cfg [])) = [''llama-7b-inference'']"
    if "\<not> dry_run cfg" and "deployment_name (model_type cfg) = Some ''llama-7b-inference''"
    using that by (simp add: monitor_deployment_def Let_def emits)
  from names poll polled_main [of env cfg] show ?thesis by auto
qed

theorem monitor_workload_name_witness:
  "\<not> dry_run (request\<lparr>model_type := ''llama-70b''\<rparr>) \<and>
   model_type (request\<lparr>model_type := ''llama-70b''\<rparr>) = ''llama-70b'' \<and>
   polled (snd (monitor_deployment ready_cluster (request\<lparr>model_type := ''llama-70b''\<rparr>) []))
     = [''llama-7b-inference''] \<and>
   polled (snd (main ready_cluster (request\<lparr>model_type := ''llama-70b''\<rparr>)))
     = [''llama-7b-inference'']"
proof -
  have "calls (snd (main ready_cluster (request\<lparr>model_type := ''llama-70b''\<rparr>))) \<noteq> []
        \<and> polled (snd (main ready_cluster (request\<lparr>model_type := ''llama-70b''\<rparr>))) \<noteq> []"
    by (simp add: main_def cleanup_def banner_def run_defs sublist_Cons_right)
  then show ?thesis
    using monitor_workload_name [of "request\<lparr>model_type := ''llama-70b''\<rparr>" ready_cluster]
    by (simp add: request_def defaults_def)
qed

end
